theory Spec2Isabelle
  imports Complex_Main "HOL-Library.Word"
begin

section \<open>JavaScript values, strings and the sources of entropy\<close>

text \<open>
  The logo generator is \<^verbatim>\<open>generateLogoConfig\<close> of \<^verbatim>\<open>api/_lib/logoConfig.js\<close>; the
  serverless function of \<^verbatim>\<open>POST /api/generate\<close> calls it; the front end has the SVG
  exporter \<^verbatim>\<open>downloadLogoAsSVG\<close> and, in \<^verbatim>\<open>LogoCanvas.jsx\<close>, the 2D renderer.

  JavaScript numbers are idealised as reals; the two products that index an array,
  \<^verbatim>\<open>Math.random() * 8\<close> and \<^verbatim>\<open>Math.random() * 4\<close>, are exact in binary floating
  point as well.
\<close>

subsection \<open>Strings\<close>

text \<open>
  A JavaScript string is a sequence of UTF-16 code units; its \<^verbatim>\<open>length\<close>, its indices
  and \<^verbatim>\<open>slice\<close> count code units. A text of the source, which is ASCII, is embedded by
  \<open>js\<close>. The keys of the catalogues and the filters, which the program only compares, stay
  texts.
\<close>

type_synonym code_unit = "16 word"

type_synonym jsstring = "code_unit list"

definition unit_of :: "char \<Rightarrow> code_unit" where
  "unit_of c = of_nat (of_char c)"

definition js :: "string \<Rightarrow> jsstring" where
  "js s = map unit_of s"

text \<open>
  The white space of ECMAScript, which \<^verbatim>\<open>trim\<close> strips and \<^verbatim>\<open>parseInt\<close> skips: tab,
  line feed, vertical tab, form feed, carriage return, space, no-break space, the other space
  separators of Unicode, the line and the paragraph separator, and the byte order mark.
\<close>

definition is_ws :: "code_unit \<Rightarrow> bool" where
  "is_ws u =
     (u \<in> set [0x0009, 0x000A, 0x000B, 0x000C, 0x000D, 0x0020, 0x00A0, 0x1680,
               0x2000, 0x2001, 0x2002, 0x2003, 0x2004, 0x2005, 0x2006, 0x2007, 0x2008, 0x2009,
               0x200A, 0x2028, 0x2029, 0x202F, 0x205F, 0x3000, 0xFEFF])"

definition trim :: "jsstring \<Rightarrow> jsstring" where
  "trim s = rev (dropWhile is_ws (rev (dropWhile is_ws s)))"

text \<open>
  \<^verbatim>\<open>s.split(sep)\<close> for a separator of one code unit, generalised to a predicate on the
  separator: the pieces between the separators, empty ones included, so that the empty string
  has the one piece \<^verbatim>\<open>""\<close>.
\<close>

fun split_where :: "('a \<Rightarrow> bool) \<Rightarrow> 'a list \<Rightarrow> 'a list list" where
  "split_where p [] = [[]]"
| "split_where p (c # cs) =
     (if p c then [] # split_where p cs
      else (case split_where p cs of
              [] \<Rightarrow> [[c]]
            | piece # pieces \<Rightarrow> (c # piece) # pieces))"

definition split_char :: "code_unit \<Rightarrow> jsstring \<Rightarrow> jsstring list" where
  "split_char sep s = split_where (\<lambda>c. c = sep) s"

text \<open>
  \<^verbatim>\<open>String.prototype.toUpperCase\<close> is the case mapping of Unicode, which is no part of the
  repository: it is a parameter \<open>toUpperCase\<close> of every function of the model that calls
  it, a function from strings to strings. The mapping can change the length of a string
  (the sharp s becomes \<^verbatim>\<open>SS\<close>). What is known of it on ASCII text, where it maps
  \<^verbatim>\<open>a\<close>..\<^verbatim>\<open>z\<close> to \<^verbatim>\<open>A\<close>..\<^verbatim>\<open>Z\<close> and leaves every other code unit alone, is the
  predicate \<open>uppercases_ascii\<close>; \<open>ascii_toUpperCase\<close> is that mapping alone.
\<close>

definition upper_unit :: "code_unit \<Rightarrow> code_unit" where
  "upper_unit u = (if 0x61 \<le> u \<and> u \<le> 0x7A then u - 0x20 else u)"

definition uppercases_ascii :: "(jsstring \<Rightarrow> jsstring) \<Rightarrow> bool" where
  "uppercases_ascii toUpperCase =
     (\<forall>s. (\<forall>u\<in>set s. u < 0x80) \<longrightarrow> toUpperCase s = map upper_unit s)"

definition ascii_toUpperCase :: "jsstring \<Rightarrow> jsstring" where
  "ascii_toUpperCase s = map upper_unit s"

subsection \<open>Values\<close>

text \<open>
  The values that a name or a count of a request can be. What the program reads of a number
  is its text, \<^verbatim>\<open>String(x)\<close>, which \<^verbatim>\<open>parseInt\<close> parses: \<^term>\<open>JNum t\<close> is the number
  with the text \<open>t\<close>. For an integer of magnitude below \<open>10\<^sup>2\<^sup>1\<close> the text is the decimal
  numeral, \<^verbatim>\<open>-\<close> in front of a negative one; from \<open>10\<^sup>2\<^sup>1\<close> on it is in exponent
  notation, \<^verbatim>\<open>1e+21\<close>. Likewise \<^term>\<open>JObject t\<close> is an array or an object of the
  request body, with its text \<open>t\<close>.
\<close>

datatype jsval =
    JUndefined
  | JNull
  | JBool bool
  | JNum string
  | JStr jsstring
  | JObject jsstring

text \<open>
  The decimal numeral of an integer \<open>k\<close>: the text of the number \<open>k\<close> when its magnitude
  is below \<open>10\<^sup>2\<^sup>1\<close>.
\<close>

definition digit_char :: "nat \<Rightarrow> char" where
  "digit_char d = ''0123456789'' ! d"

fun digits :: "nat \<Rightarrow> string" where
  "digits n = (if n < 10 then [digit_char n] else digits (n div 10) @ [digit_char (n mod 10)])"

declare digits.simps [simp del]

definition decimal :: "int \<Rightarrow> string" where
  "decimal k = (if k < 0 then CHR ''-'' # digits (nat (- k)) else digits (nat k))"

datatype js_error = TypeError

text \<open>A result of \<^verbatim>\<open>Math.random()\<close>: a number \<open>u\<close> with \<open>0 \<le> u < 1\<close>.\<close>

typedef draw = "{u :: real. 0 \<le> u \<and> u < 1}"
  by (rule exI [of _ 0]) simp

setup_lifting type_definition_draw

lift_definition draw_of :: "real \<Rightarrow> draw" is "\<lambda>x. if 0 \<le> x \<and> x < 1 then x else 0"
  by simp

text \<open>
  The world outside the program: the results of the calls of \<^verbatim>\<open>Math.random()\<close> in the
  order they are made, the values \<^verbatim>\<open>randomUUID()\<close> hands out, and the clock that
  \<^verbatim>\<open>Date.now()\<close> reads.
\<close>

record world =
  draws :: "nat \<Rightarrow> draw"
  used :: nat
  uuids :: "nat \<Rightarrow> string"
  uuids_used :: nat
  clock :: int

definition rnd :: "world \<Rightarrow> nat \<Rightarrow> real" where
  "rnd w i = Rep_draw (draws w (used w + i))"

definition advance :: "nat \<Rightarrow> world \<Rightarrow> world" where
  "advance n w = w\<lparr>used := used w + n\<rparr>"

definition Math_random :: "world \<Rightarrow> real \<times> world" where
  "Math_random w = (rnd w 0, advance 1 w)"

definition randomUUID :: "world \<Rightarrow> string \<times> world" where
  "randomUUID w = (uuids w (uuids_used w), w\<lparr>uuids_used := uuids_used w + 1\<rparr>)"

definition Date_now :: "world \<Rightarrow> int" where
  "Date_now w = clock w"

text \<open>\<^verbatim>\<open>arr[Math.floor(u * arr.length)]\<close>\<close>

definition random_index :: "real \<Rightarrow> nat \<Rightarrow> nat" where
  "random_index u n = nat \<lfloor>u * real n\<rfloor>"

section \<open>The catalogues\<close>

record variant =
  v_primary :: string
  v_secondary :: string
  v_accent :: string
  v_bg :: string

definition mk_variant :: "string \<Rightarrow> string \<Rightarrow> string \<Rightarrow> string \<Rightarrow> variant" where
  "mk_variant p s a b = \<lparr>v_primary = p, v_secondary = s, v_accent = a, v_bg = b\<rparr>"

definition COLOR_PALETTES :: "(string \<times> variant list) list" where
  "COLOR_PALETTES =
    [(''vibrant'',
        [mk_variant ''#FF6B6B'' ''#4ECDC4'' ''#FFE66D'' ''#1A1A2E'',
         mk_variant ''#FF9A3C'' ''#FF6392'' ''#B5FFE1'' ''#16213E'',
         mk_variant ''#7B2FBE'' ''#EA60DA'' ''#C0FDFB'' ''#0F0E17'',
         mk_variant ''#FD3A69'' ''#FECD1A'' ''#FF884B'' ''#1A1A2E'']),
     (''neon'',
        [mk_variant ''#39FF14'' ''#FF073A'' ''#00FFFF'' ''#0D0D0D'',
         mk_variant ''#FF00FF'' ''#00FFFF'' ''#FFFF00'' ''#050505'',
         mk_variant ''#BF00FF'' ''#00FF41'' ''#FF9900'' ''#0a0a0a'',
         mk_variant ''#FF6600'' ''#00FFCC'' ''#FF0099'' ''#111111'']),
     (''pastel'',
        [mk_variant ''#FFB3BA'' ''#FFDFBA'' ''#FFFFBA'' ''#FFF5F5'',
         mk_variant ''#BAFFC9'' ''#BAE1FF'' ''#FFB3DE'' ''#F0FFF4'',
         mk_variant ''#C9B1FF'' ''#B1E8FF'' ''#FFB1C1'' ''#F5F0FF'',
         mk_variant ''#FFC8DD'' ''#BDE0FE'' ''#A2D2FF'' ''#FEFCE8'']),
     (''monochrome'',
        [mk_variant ''#FFFFFF'' ''#AAAAAA'' ''#555555'' ''#0A0A0A'',
         mk_variant ''#F5F5F5'' ''#CCCCCC'' ''#888888'' ''#111111'',
         mk_variant ''#111111'' ''#444444'' ''#777777'' ''#F5F5F5'',
         mk_variant ''#222222'' ''#666666'' ''#BBBBBB'' ''#FFFFFF'']),
     (''golden'',
        [mk_variant ''#FFD700'' ''#FFA500'' ''#FF8C00'' ''#1C1408'',
         mk_variant ''#F5C518'' ''#E8A400'' ''#D4901A'' ''#0F0A00'',
         mk_variant ''#FFD700'' ''#C0A000'' ''#FFEC8B'' ''#18140A'',
         mk_variant ''#DAA520'' ''#B8860B'' ''#FFD700'' ''#1A1200'']),
     (''ocean'',
        [mk_variant ''#00B4D8'' ''#0077B6'' ''#90E0EF'' ''#03045E'',
         mk_variant ''#48CAE4'' ''#023E8A'' ''#ADE8F4'' ''#03045E'',
         mk_variant ''#06D6A0'' ''#0496FF'' ''#FFBC42'' ''#0A1628'',
         mk_variant ''#4CC9F0'' ''#4361EE'' ''#7400B8'' ''#03045E'']),
     (''fire'',
        [mk_variant ''#FF4500'' ''#FF7519'' ''#FFD700'' ''#1A0500'',
         mk_variant ''#FF6D00'' ''#FF9500'' ''#FFBE0B'' ''#150300'',
         mk_variant ''#D62828'' ''#F77F00'' ''#FCBF49'' ''#1A0000'',
         mk_variant ''#E63946'' ''#457B9D'' ''#F1FAEE'' ''#1D3557'']),
     (''galaxy'',
        [mk_variant ''#7B2FBE'' ''#2176FF'' ''#FF6B6B'' ''#050510'',
         mk_variant ''#6A0572'' ''#AB83A1'' ''#F9A620'' ''#080016'',
         mk_variant ''#240046'' ''#7B2FBE'' ''#FF6B9D'' ''#03000D'',
         mk_variant ''#560BAD'' ''#480CA8'' ''#B5179E'' ''#03071E''])]"

definition SHAPE_STYLES :: "string list" where
  "SHAPE_STYLES =
    [''hexagon'', ''circle'', ''diamond'', ''shield'', ''star'', ''badge'', ''infinity'', ''arch'']"

definition FONT_STYLES :: "string list" where
  "FONT_STYLES =
    [''serif'', ''sans'', ''mono'', ''display'', ''cursive'', ''geometric'', ''rounded'', ''sharp'']"

definition EFFECTS :: "string list" where
  "EFFECTS =
    [''glow'', ''shadow'', ''gradient'', ''outline'', ''emboss'', ''neon'', ''metallic'', ''glass'']"

definition LAYOUT_MODES :: "string list" where
  "LAYOUT_MODES =
    [''centered'', ''stacked'', ''horizontal'', ''diagonal'', ''circular'', ''split'', ''badge'',
     ''monogram'']"

definition PATTERNS :: "string list" where
  "PATTERNS =
    [''none'', ''dots'', ''lines'', ''grid'', ''waves'', ''hexagons'', ''triangles'', ''circuits'']"

text \<open>\<^verbatim>\<open>Object.keys(COLOR_PALETTES)\<close>: the table's own keys, in the order they are written.\<close>

definition Object_keys :: "(string \<times> 'a) list \<Rightarrow> string list" where
  "Object_keys obj = map fst obj"

text \<open>
  \<^verbatim>\<open>COLOR_PALETTES\<close> is an object literal, so its prototype is \<^verbatim>\<open>Object.prototype\<close>.
  The operator \<^verbatim>\<open>in\<close> and the property read \<^verbatim>\<open>COLOR_PALETTES[key]\<close> both follow
  the prototype chain: they find the table's own eight keys and the properties every object
  inherits. An inherited property is a function or, for \<^verbatim>\<open>__proto__\<close>, the prototype
  itself: none of them is an array of palettes.
\<close>

definition Object_prototype_keys :: "string list" where
  "Object_prototype_keys =
    [''constructor'', ''hasOwnProperty'', ''isPrototypeOf'', ''propertyIsEnumerable'',
     ''toLocaleString'', ''toString'', ''valueOf'', ''__proto__'',
     ''__defineGetter__'', ''__defineSetter__'', ''__lookupGetter__'', ''__lookupSetter__'']"

datatype 'a property = Own 'a | Inherited

definition get_property :: "(string \<times> 'a) list \<Rightarrow> string \<Rightarrow> 'a property option" where
  "get_property obj key =
     (case map_of obj key of
        Some v \<Rightarrow> Some (Own v)
      | None \<Rightarrow> if key \<in> set Object_prototype_keys then Some Inherited else None)"

definition js_in :: "string \<Rightarrow> (string \<times> 'a) list \<Rightarrow> bool" where
  "js_in key obj = (get_property obj key \<noteq> None)"

section \<open>The config generator\<close>

text \<open>
  A palette as \<^verbatim>\<open>pickPalette\<close> returns it: the own properties of the chosen variant,
  spread into a new object, and \<^verbatim>\<open>paletteName\<close>. A colour the object does not have reads
  as \<^verbatim>\<open>undefined\<close>, here \<^term>\<open>None\<close>.
\<close>

record palette =
  primary :: "string option"
  secondary :: "string option"
  accent :: "string option"
  bg :: "string option"
  paletteName :: string

record bezier =
  cx1 :: real
  cy1 :: real
  cx2 :: real
  cy2 :: real

record LogoConfiguration =
  logo_id :: string
  name :: jsstring
  initials :: jsstring
  palette :: palette
  shape :: string
  fontStyle :: string
  effect :: string
  layout :: string
  pattern :: string
  rotation :: real
  scale_c :: real
  shapeSize :: real
  fontSize :: real
  letterSpacing :: real
  borderRadius :: real
  strokeWidth :: real
  glowIntensity :: real
  innerRotation :: real
  decorCount :: int
  bezierCurves :: "bezier list"
  hslShift :: int
  timestamp :: int

text \<open>
  The second argument of \<^verbatim>\<open>generateLogoConfig\<close>. A field that is absent (\<^term>\<open>None\<close>)
  takes the destructuring default \<^verbatim>\<open>'random'\<close>; the filters are strings.
\<close>

record options =
  paletteType :: "string option"
  shapeStyle :: "string option"
  fontStyle_opt :: "string option"
  effect_opt :: "string option"
  layoutMode :: "string option"
  pattern_opt :: "string option"

datatype options_arg = OptUndefined | OptNull | OptObject options

definition or_random :: "string option \<Rightarrow> string" where
  "or_random v = (case v of None \<Rightarrow> ''random'' | Some s \<Rightarrow> s)"

definition no_options :: options where
  "no_options =
     \<lparr>paletteType = None, shapeStyle = None, fontStyle_opt = None, effect_opt = None,
      layoutMode = None, pattern_opt = None\<rparr>"

text \<open>The parameter default \<^verbatim>\<open>options = {}\<close> applies to \<^verbatim>\<open>undefined\<close> only.\<close>

definition given_options :: "options_arg \<Rightarrow> options" where
  "given_options opts_v = (case opts_v of OptObject x \<Rightarrow> x | _ \<Rightarrow> no_options)"

text \<open>\<^verbatim>\<open>{ ...arr[i], paletteName: key }\<close>, where \<^verbatim>\<open>arr[i]\<close> is a variant or undefined.\<close>

definition spread_palette :: "variant option \<Rightarrow> string \<Rightarrow> palette" where
  "spread_palette v key =
     (case v of
        Some x \<Rightarrow>
          \<lparr>primary = Some (v_primary x), secondary = Some (v_secondary x),
           accent = Some (v_accent x), bg = Some (v_bg x), paletteName = key\<rparr>
      | None \<Rightarrow>
          \<lparr>primary = None, secondary = None, accent = None, bg = None, paletteName = key\<rparr>)"

definition element :: "'a list \<Rightarrow> nat \<Rightarrow> 'a option" where
  "element arr i = (if i < length arr then Some (arr ! i) else None)"

text \<open>
  \<^verbatim>\<open>pickPalette\<close>. The key is drawn only for \<^verbatim>\<open>'random'\<close>; a type that is not
  \<^verbatim>\<open>in COLOR_PALETTES\<close> falls back to the first key. Then \<^verbatim>\<open>Math.random()\<close> is
  called once for the variant. Under an inherited key \<^verbatim>\<open>arr\<close> is no array of palettes
  and \<^verbatim>\<open>arr[...]\<close> is undefined whatever the index.
\<close>

definition pickPalette :: "world \<Rightarrow> string \<Rightarrow> palette \<times> world" where
  "pickPalette w paletteType_v =
     (let keys = Object_keys COLOR_PALETTES;
          (key, w1) =
             (if paletteType_v = ''random''
              then (let (u, w0) = Math_random w in (keys ! random_index u (length keys), w0))
              else if js_in paletteType_v COLOR_PALETTES then (paletteType_v, w)
              else (keys ! 0, w));
          (u, w2) = Math_random w1;
          chosen =
             (case get_property COLOR_PALETTES key of
                Some (Own arr) \<Rightarrow> element arr (random_index u (length arr))
              | Some Inherited \<Rightarrow> None
              | None \<Rightarrow> None)
      in (spread_palette chosen key, w2))"

text \<open>The key \<^verbatim>\<open>pickPalette\<close> settles on, as a function of the next random number.\<close>

definition palette_key :: "world \<Rightarrow> string \<Rightarrow> string" where
  "palette_key w t =
     (if t = ''random'' then Object_keys COLOR_PALETTES ! random_index (rnd w 0) 8
      else if js_in t COLOR_PALETTES then t else ''vibrant'')"

text \<open>
  \<^verbatim>\<open>val === 'random' || !arr.includes(val)\<close>, the condition under which \<^verbatim>\<open>pick\<close>
  draws; \<^verbatim>\<open>pick\<close> is called with the five catalogues only, none of them empty.
\<close>

definition needs_draw :: "string list \<Rightarrow> string \<Rightarrow> bool" where
  "needs_draw arr val = (val = ''random'' \<or> val \<notin> set arr)"

definition pick :: "world \<Rightarrow> string list \<Rightarrow> string \<Rightarrow> string \<times> world" where
  "pick w arr val =
     (if needs_draw arr val
      then (let (u, w1) = Math_random w in (arr ! random_index u (length arr), w1))
      else (val, w))"

text \<open>
  The resolution rule in the words of the specification, for a filter value \<open>val\<close>, the
  closed set \<open>arr\<close> of its field and a random number \<open>u\<close>: a value that is
  \<^verbatim>\<open>"random"\<close> or not a member of the set resolves to the member that \<open>u\<close> selects,
  any other value to itself.
\<close>

definition claimed_resolution :: "string list \<Rightarrow> string \<Rightarrow> real \<Rightarrow> string" where
  "claimed_resolution arr val u =
     (if val = ''random'' \<or> val \<notin> set arr then arr ! random_index u (length arr) else val)"

text \<open>\<^verbatim>\<open>w[0]?.toUpperCase() || ''\<close>\<close>

definition first_upper :: "(jsstring \<Rightarrow> jsstring) \<Rightarrow> jsstring \<Rightarrow> jsstring" where
  "first_upper toUpperCase w = (case w of [] \<Rightarrow> [] | c # _ \<Rightarrow> toUpperCase [c])"

text \<open>\<^verbatim>\<open>words.map(w => w[0]?.toUpperCase() || '').join('')\<close>\<close>

definition letters_of :: "(jsstring \<Rightarrow> jsstring) \<Rightarrow> jsstring list \<Rightarrow> jsstring" where
  "letters_of toUpperCase pieces = concat (map (first_upper toUpperCase) pieces)"

text \<open>
  \<^verbatim>\<open>name.split(' ').map(w => w[0]?.toUpperCase() || '').join('').slice(0, 3)
    || name[0]?.toUpperCase() || 'L'\<close>
\<close>

definition derive_initials :: "(jsstring \<Rightarrow> jsstring) \<Rightarrow> jsstring \<Rightarrow> jsstring" where
  "derive_initials toUpperCase n =
     (let joined = take 3 (letters_of toUpperCase (split_char 0x20 n))
      in if joined \<noteq> [] then joined
         else if first_upper toUpperCase n \<noteq> [] then first_upper toUpperCase n
         else js ''L'')"

text \<open>
  The derivation of the initials in the words of the specification: the trimmed name is split
  on white space, the first character of each word is uppercased, the results are concatenated
  and truncated to three characters; when that yields nothing the first character of the raw
  name, uppercased; when there is none either, the letter L.
\<close>

definition claimed_initials :: "(jsstring \<Rightarrow> jsstring) \<Rightarrow> jsstring \<Rightarrow> jsstring" where
  "claimed_initials toUpperCase n =
     (let ws = filter (\<lambda>w. w \<noteq> []) (split_where is_ws (trim n));
          joined = take 3 (letters_of toUpperCase ws)
      in if joined \<noteq> [] then joined
         else if first_upper toUpperCase n \<noteq> [] then first_upper toUpperCase n
         else js ''L'')"

definition bezier_at :: "world \<Rightarrow> nat \<Rightarrow> bezier" where
  "bezier_at w i =
     \<lparr>cx1 = rnd w i * 200 - 100, cy1 = rnd w (i + 1) * 200 - 100,
      cx2 = rnd w (i + 2) * 200 - 100, cy2 = rnd w (i + 3) * 200 - 100\<rparr>"

text \<open>
  \<^verbatim>\<open>generateLogoConfig\<close>. Destructuring \<^verbatim>\<open>null\<close> options throws before anything is
  drawn; \<^verbatim>\<open>name.split\<close> throws for a name that is not a string, after the random
  parameters have been drawn. The calls of \<^verbatim>\<open>Math.random()\<close> are in the order of the
  source: ten numeric parameters, the palette, the five picks, the two Bezier curves of four
  offsets each, the hue shift.
\<close>

definition generateLogoConfig ::
  "(jsstring \<Rightarrow> jsstring) \<Rightarrow> world \<Rightarrow> jsval \<Rightarrow> options_arg \<Rightarrow>
     (js_error + LogoConfiguration) \<times> world" where
  "generateLogoConfig toUpperCase w name_v opts_v =
     (case opts_v of
        OptNull \<Rightarrow> (Inl TypeError, w)
      | _ \<Rightarrow>
     (let opts = given_options opts_v;
          rotation_v = rnd w 0 * 360;
          scale_v = 0.7 + rnd w 1 * 0.6;
          shapeSize_v = 120 + rnd w 2 * 80;
          fontSize_v = 24 + rnd w 3 * 24;
          letterSpacing_v = rnd w 4 * 8 - 2;
          borderRadius_v = rnd w 5 * 50;
          strokeWidth_v = 1 + rnd w 6 * 4;
          glowIntensity_v = 5 + rnd w 7 * 20;
          innerRotation_v = rnd w 8 * 30 - 15;
          decorCount_v = 3 + \<lfloor>rnd w 9 * 8\<rfloor>;
          w0 = advance 10 w;
          (palette_v, w1) = pickPalette w0 (or_random (paletteType opts));
          (selectedShape, w2) = pick w1 SHAPE_STYLES (or_random (shapeStyle opts));
          (selectedFont, w3) = pick w2 FONT_STYLES (or_random (fontStyle_opt opts));
          (selectedEffect, w4) = pick w3 EFFECTS (or_random (effect_opt opts));
          (selectedLayout, w5) = pick w4 LAYOUT_MODES (or_random (layoutMode opts));
          (selectedPattern, w6) = pick w5 PATTERNS (or_random (pattern_opt opts));
          bezierCurves_v = [bezier_at w6 0, bezier_at w6 4];
          w7 = advance 8 w6;
          hslShift_v = \<lfloor>rnd w7 0 * 360\<rfloor>;
          w8 = advance 1 w7
      in case name_v of
           JStr n \<Rightarrow>
             (let (uuid, w9) = randomUUID w8
              in (Inr \<lparr>logo_id = uuid, name = n, initials = derive_initials toUpperCase n,
                       palette = palette_v, shape = selectedShape, fontStyle = selectedFont,
                       effect = selectedEffect, layout = selectedLayout,
                       pattern = selectedPattern, rotation = rotation_v, scale_c = scale_v,
                       shapeSize = shapeSize_v, fontSize = fontSize_v,
                       letterSpacing = letterSpacing_v, borderRadius = borderRadius_v,
                       strokeWidth = strokeWidth_v, glowIntensity = glowIntensity_v,
                       innerRotation = innerRotation_v, decorCount = decorCount_v,
                       bezierCurves = bezierCurves_v, hslShift = hslShift_v,
                       timestamp = Date_now w9\<rparr>, w9))
         | _ \<Rightarrow> (Inl TypeError, w8)))"

text \<open>
  The ranges of the numeric parameters of a configuration as the specification lists them,
  with the two Bezier curves of four offsets each and the hue shift.
\<close>

definition in_ranges :: "LogoConfiguration \<Rightarrow> bool" where
  "in_ranges c =
     (0 \<le> rotation c \<and> rotation c < 360 \<and>
      0.7 \<le> scale_c c \<and> scale_c c \<le> 1.3 \<and>
      120 \<le> shapeSize c \<and> shapeSize c \<le> 200 \<and>
      24 \<le> fontSize c \<and> fontSize c \<le> 48 \<and>
      - 2 \<le> letterSpacing c \<and> letterSpacing c \<le> 6 \<and>
      0 \<le> borderRadius c \<and> borderRadius c \<le> 50 \<and>
      1 \<le> strokeWidth c \<and> strokeWidth c \<le> 5 \<and>
      5 \<le> glowIntensity c \<and> glowIntensity c \<le> 25 \<and>
      - 15 \<le> innerRotation c \<and> innerRotation c \<le> 15 \<and>
      3 \<le> decorCount c \<and> decorCount c \<le> 10 \<and>
      0 \<le> hslShift c \<and> hslShift c < 360 \<and>
      length (bezierCurves c) = 2 \<and>
      (\<forall>b\<in>set (bezierCurves c).
         - 100 \<le> cx1 b \<and> cx1 b \<le> 100 \<and> - 100 \<le> cy1 b \<and> cy1 b \<le> 100 \<and>
         - 100 \<le> cx2 b \<and> cx2 b \<le> 100 \<and> - 100 \<le> cy2 b \<and> cy2 b \<le> 100))"

section \<open>The request handler of POST /api/generate\<close>

text \<open>
  The value that line 22 of the handler destructures,
  \<^verbatim>\<open>typeof req.body === 'string' ? JSON.parse(req.body) : (req.body || {})\<close>: an object
  with the three properties the handler reads (an absent one is \<^term>\<open>JUndefined\<close>,
  absent filters \<^term>\<open>OptUndefined\<close>); a value with none of them (no body, or a
  number, a string, a boolean, an array); or no value at all, when \<^verbatim>\<open>JSON.parse\<close> throws or
  returns \<^verbatim>\<open>null\<close>, which cannot be destructured.
\<close>

record body_fields =
  body_name :: jsval
  body_count :: jsval
  body_filters :: options_arg

datatype request_body = BodyObject body_fields | BodyEmpty | BodyThrows

record request =
  req_method :: string
  req_body :: request_body

datatype payload =
    NoContent
  | ErrorJson string
  | LogosJson "LogoConfiguration list" jsstring

record response =
  status :: nat
  headers :: "(string \<times> string) list"
  payload :: payload

definition cors_headers :: "(string \<times> string) list" where
  "cors_headers =
     [(''Access-Control-Allow-Origin'', ''*''),
      (''Access-Control-Allow-Methods'', ''POST, OPTIONS''),
      (''Access-Control-Allow-Headers'', ''Content-Type'')]"

definition respond :: "nat \<Rightarrow> payload \<Rightarrow> response" where
  "respond code p = \<lparr>status = code, headers = cors_headers, payload = p\<rparr>"

definition is_digit :: "code_unit \<Rightarrow> bool" where
  "is_digit u = (0x30 \<le> u \<and> u \<le> 0x39)"

definition digit_value :: "code_unit \<Rightarrow> int" where
  "digit_value u = uint u - 48"

text \<open>
  \<^verbatim>\<open>parseInt(v, 10)\<close>, with \<^term>\<open>None\<close> for \<^verbatim>\<open>NaN\<close>: the argument is turned into a
  string, leading white space and one sign are skipped, and the decimal digits that follow
  are read; there is no number when there is no digit. The digits are read as an integer;
  where JavaScript rounds a long numeral to a double, the two agree after the clamping of the
  batch size. For \<^verbatim>\<open>undefined\<close>, \<^verbatim>\<open>null\<close>, \<^verbatim>\<open>true\<close> and \<^verbatim>\<open>false\<close> the
  string is the name of the value, which has no digit.
\<close>

definition parseInt_string :: "jsstring \<Rightarrow> int option" where
  "parseInt_string s =
     (let t = dropWhile is_ws s;
          negative = (case t of [] \<Rightarrow> False | c # _ \<Rightarrow> c = unit_of CHR ''-'');
          r = (case t of
                 [] \<Rightarrow> []
               | c # cs \<Rightarrow> if c = unit_of CHR ''-'' \<or> c = unit_of CHR ''+'' then cs else t);
          ds = takeWhile is_digit r;
          magnitude = foldl (\<lambda>a d. 10 * a + digit_value d) 0 ds
      in if ds = [] then None else Some (if negative then - magnitude else magnitude))"

definition parseInt10 :: "jsval \<Rightarrow> int option" where
  "parseInt10 v =
     (case v of
        JNum t \<Rightarrow> parseInt_string (js t)
      | JStr s \<Rightarrow> parseInt_string s
      | JObject t \<Rightarrow> parseInt_string t
      | _ \<Rightarrow> None)"

text \<open>\<^verbatim>\<open>Math.min(Math.max(1, parseInt(count, 10) || 9), 12)\<close>, for \<^verbatim>\<open>count = 9\<close> by default.\<close>

definition batch_size :: "jsval \<Rightarrow> nat" where
  "batch_size count_v =
     (let c = (case count_v of JUndefined \<Rightarrow> JNum ''9'' | _ \<Rightarrow> count_v);
          parsed = (case parseInt10 c of None \<Rightarrow> 9 | Some k \<Rightarrow> if k = 0 then 9 else k)
      in nat (min (max 1 parsed) 12))"

text \<open>
  \<^verbatim>\<open>Array.from({ length: k }, () => generateLogoConfig(trimmed, filters))\<close>: the calls
  are made one after the other, and an exception of one of them ends them all.
\<close>

fun generate_batch ::
  "(jsstring \<Rightarrow> jsstring) \<Rightarrow> nat \<Rightarrow> world \<Rightarrow> jsstring \<Rightarrow> options_arg \<Rightarrow>
     (js_error + LogoConfiguration list) \<times> world" where
  "generate_batch toUpperCase 0 w n f = (Inr [], w)"
| "generate_batch toUpperCase (Suc k) w n f =
     (case generateLogoConfig toUpperCase w (JStr n) f of
        (Inl e, w1) \<Rightarrow> (Inl e, w1)
      | (Inr c, w1) \<Rightarrow>
          (case generate_batch toUpperCase k w1 n f of
             (Inl e, w2) \<Rightarrow> (Inl e, w2)
           | (Inr cs, w2) \<Rightarrow> (Inr (c # cs), w2)))"

text \<open>\<^verbatim>\<open>!name || typeof name !== 'string' || name.trim().length === 0\<close>\<close>

definition name_missing :: "jsval \<Rightarrow> bool" where
  "name_missing v = (case v of JStr s \<Rightarrow> s = [] \<or> trim s = [] | _ \<Rightarrow> True)"

definition handler ::
  "(jsstring \<Rightarrow> jsstring) \<Rightarrow> world \<Rightarrow> request \<Rightarrow> response \<times> world" where
  "handler toUpperCase w req =
     (if req_method req = ''OPTIONS'' then (respond 204 NoContent, w)
      else if req_method req \<noteq> ''POST''
      then (respond 405 (ErrorJson ''Method not allowed''), w)
      else
        (case req_body req of
           BodyThrows \<Rightarrow> (respond 500 (ErrorJson ''Internal server error''), w)
         | _ \<Rightarrow>
        (let fields =
               (case req_body req of
                  BodyObject b \<Rightarrow> b
                | _ \<Rightarrow> \<lparr>body_name = JUndefined, body_count = JUndefined,
                         body_filters = OptUndefined\<rparr>);
             filters =
               (case body_filters fields of
                  OptUndefined \<Rightarrow> OptObject no_options
                | given \<Rightarrow> given)
         in if name_missing (body_name fields)
            then (respond 400 (ErrorJson ''A logo name is required.''), w)
            else
              (let trimmed = (case body_name fields of JStr s \<Rightarrow> take 50 (trim s) | _ \<Rightarrow> []);
                   (made, w1) =
                      generate_batch toUpperCase (batch_size (body_count fields)) w trimmed filters
               in case made of
                    Inl e \<Rightarrow> (respond 500 (ErrorJson ''Internal server error''), w1)
                  | Inr logos \<Rightarrow> (respond 200 (LogosJson logos trimmed), w1)))))"


text \<open>The configurations of a response, none when it is not a 200.\<close>

definition logos_of :: "response \<Rightarrow> LogoConfiguration list" where
  "logos_of r = (case payload r of LogosJson logos n \<Rightarrow> logos | _ \<Rightarrow> [])"

definition has_logos :: "response \<Rightarrow> bool" where
  "has_logos r = (case payload r of LogosJson logos n \<Rightarrow> True | _ \<Rightarrow> False)"

definition has_error_message :: "response \<Rightarrow> bool" where
  "has_error_message r = (case payload r of ErrorJson m \<Rightarrow> m \<noteq> [] | _ \<Rightarrow> False)"

section \<open>The SVG exporter\<close>

text \<open>
  \<^verbatim>\<open>downloadLogoAsSVG\<close> of the front end builds the document \<^verbatim>\<open>svgContent\<close> from a
  template literal and hands it to \<^verbatim>\<open>saveAs\<close>; the document is what is modelled here.
  A template literal turns an undefined colour into the text \<^verbatim>\<open>undefined\<close>. How a number
  that is interpolated becomes text (the shortest decimal that reads back as the same double)
  is a parameter \<open>num\<close> of the model.
\<close>

definition nl :: string where
  "nl = [CHR 0x0A]"

definition template_text :: "string option \<Rightarrow> string" where
  "template_text v = (case v of None \<Rightarrow> ''undefined'' | Some s \<Rightarrow> s)"

text \<open>
  The template literal of \<^verbatim>\<open>svgContent\<close>: its fixed texts and, between them, the values
  it interpolates, \<^verbatim>\<open>${palette.primary}\<close>, \<^verbatim>\<open>${palette.secondary}\<close>,
  \<^verbatim>\<open>${palette.accent}\<close>, \<^verbatim>\<open>${palette.bg}\<close>,
  \<^verbatim>\<open>${Math.min(64, 560 / Math.max(n.length, 1))}\<close>, \<^verbatim>\<open>${letterSpacing || 2}\<close> and
  \<^verbatim>\<open>${n.toUpperCase()}\<close>. A line break of the template is the piece \<^term>\<open>Fixed nl\<close>; a
  long line of fixed text is written in two pieces.
\<close>

datatype svg_piece =
    Fixed string
  | Primary
  | Secondary
  | Accent
  | Background
  | FontSize
  | LetterSpacing
  | UpperName

definition svg_template :: "svg_piece list" where
  \<open>svg_template =
     [Fixed ''<svg xmlns="http://www.w3.org/2000/svg" width="600" height="600" '',
      Fixed ''viewBox="0 0 600 600">'',
      Fixed nl,
      Fixed ''  <defs>'',
      Fixed nl,
      Fixed ''    <linearGradient id="fill" x1="0%" y1="0%" x2="100%" y2="100%">'',
      Fixed nl,
      Fixed ''      <stop offset="0%" style="stop-color:'',
      Primary,
      Fixed '';stop-opacity:0.9" />'',
      Fixed nl,
      Fixed ''      <stop offset="100%" style="stop-color:'',
      Secondary,
      Fixed '';stop-opacity:0.9" />'',
      Fixed nl,
      Fixed ''    </linearGradient>'',
      Fixed nl,
      Fixed ''    <filter id="glow"><feGaussianBlur stdDeviation="4" '',
      Fixed ''result="coloredBlur"/>'',
      Fixed nl,
      Fixed ''      <feMerge><feMergeNode in="coloredBlur"/><feMergeNode '',
      Fixed ''in="SourceGraphic"/></feMerge>'',
      Fixed nl,
      Fixed ''    </filter>'',
      Fixed nl,
      Fixed ''  </defs>'',
      Fixed nl,
      Fixed ''  <rect width="600" height="600" fill="'',
      Background,
      Fixed ''" rx="24"/>'',
      Fixed nl,
      Fixed ''  <circle cx="300" cy="300" r="200" fill="url(#fill)" stroke="'',
      Primary,
      Fixed ''" stroke-width="3" filter="url(#glow)" opacity="0.3"/>'',
      Fixed nl,
      Fixed ''  <circle cx="300" cy="300" r="145" fill="none" stroke="'',
      Accent,
      Fixed ''" stroke-width="1.5" opacity="0.4"/>'',
      Fixed nl,
      Fixed ''  <text x="300" y="320" text-anchor="middle" '',
      Fixed ''dominant-baseline="middle"'',
      Fixed nl,
      Fixed ''    font-family="Inter, sans-serif" font-weight="800"'',
      Fixed nl,
      Fixed ''    font-size="'',
      FontSize,
      Fixed ''px"'',
      Fixed nl,
      Fixed ''    letter-spacing="'',
      LetterSpacing,
      Fixed ''"'',
      Fixed nl,
      Fixed ''    fill="'',
      Primary,
      Fixed ''" filter="url(#glow)">'',
      UpperName,
      Fixed ''</text>'',
      Fixed nl,
      Fixed ''  <text x="300" y="380" text-anchor="middle"'',
      Fixed nl,
      Fixed ''    font-family="Inter, sans-serif" font-size="20px"'',
      Fixed nl,
      Fixed ''    fill="'',
      Secondary,
      Fixed ''" opacity="0.7">'',
      Fixed ''BRAND'',
      Fixed ''</text>'',
      Fixed nl,
      Fixed ''</svg>'']\<close>

definition interpolate ::
  "(jsstring \<Rightarrow> jsstring) \<Rightarrow> (real \<Rightarrow> string) \<Rightarrow> LogoConfiguration \<Rightarrow> svg_piece \<Rightarrow> jsstring"
  where
  "interpolate toUpperCase num config piece =
     (case piece of
        Fixed s \<Rightarrow> js s
      | Primary \<Rightarrow> js (template_text (primary (palette config)))
      | Secondary \<Rightarrow> js (template_text (secondary (palette config)))
      | Accent \<Rightarrow> js (template_text (accent (palette config)))
      | Background \<Rightarrow> js (template_text (bg (palette config)))
      | FontSize \<Rightarrow> js (num (min 64 (560 / max (real (length (name config))) 1)))
      | LetterSpacing \<Rightarrow>
          js (num (if letterSpacing config = 0 then 2 else letterSpacing config))
      | UpperName \<Rightarrow> toUpperCase (name config))"

definition svg_pieces ::
  "(jsstring \<Rightarrow> jsstring) \<Rightarrow> (real \<Rightarrow> string) \<Rightarrow> LogoConfiguration \<Rightarrow> jsstring list" where
  "svg_pieces toUpperCase num config = map (interpolate toUpperCase num config) svg_template"

definition svgContent ::
  "(jsstring \<Rightarrow> jsstring) \<Rightarrow> (real \<Rightarrow> string) \<Rightarrow> LogoConfiguration \<Rightarrow> jsstring" where
  "svgContent toUpperCase num config = concat (svg_pieces toUpperCase num config)"

text \<open>The number of places at which \<open>p\<close> occurs in a text.\<close>

fun occurrences :: "'a list \<Rightarrow> 'a list \<Rightarrow> nat" where
  "occurrences p [] = (if p = [] then 1 else 0)"
| "occurrences p (c # cs) =
     (if take (length p) (c # cs) = p then 1 else 0) + occurrences p cs"

text \<open>
  The fixed texts of a template, each as long as it goes: the texts between one interpolated
  value and the next.
\<close>

fun fixed_runs :: "svg_piece list \<Rightarrow> string list" where
  "fixed_runs [] = [[]]"
| "fixed_runs (Fixed s # pieces) =
     (case fixed_runs pieces of [] \<Rightarrow> [s] | run # runs \<Rightarrow> (s @ run) # runs)"
| "fixed_runs (piece # pieces) = [] # fixed_runs pieces"

text \<open>How often \<open>p\<close> occurs in the fixed texts of the template of the exporter.\<close>

definition fixed_occurrences :: "string \<Rightarrow> nat" where
  "fixed_occurrences p = sum_list (map (occurrences p) (fixed_runs svg_template))"

text \<open>
  What the exporter reads of a configuration: \<^verbatim>\<open>name\<close>, \<^verbatim>\<open>letterSpacing\<close> and four
  colours of the palette.
\<close>

definition same_export_fields :: "LogoConfiguration \<Rightarrow> LogoConfiguration \<Rightarrow> bool" where
  "same_export_fields c d =
     (name c = name d \<and> letterSpacing c = letterSpacing d \<and>
      primary (palette c) = primary (palette d) \<and>
      secondary (palette c) = secondary (palette d) \<and>
      accent (palette c) = accent (palette d) \<and> bg (palette c) = bg (palette d))"

section \<open>The 2D renderer\<close>





















section \<open>Example inputs\<close>

text \<open>Two worlds, where every call of \<^verbatim>\<open>Math.random()\<close> returns 0.9, or 0.5.\<close>

definition example_world :: world where
  "example_world =
     \<lparr>draws = (\<lambda>i. draw_of (9 / 10)), used = 0,
      uuids = (\<lambda>i. ''3b241101-e2bb-4255-8caf-4136c566a962''), uuids_used = 0,
      clock = 1700000000000\<rparr>"

definition other_world :: world where
  "other_world = example_world\<lparr>draws := (\<lambda>i. draw_of (1 / 2))\<rparr>"

definition example_options :: options where
  "example_options = no_options\<lparr>paletteType := Some ''ocean'', shapeStyle := Some ''star''\<rparr>"

definition example_config :: LogoConfiguration where
  "example_config =
     projr (fst (generateLogoConfig ascii_toUpperCase example_world (JStr (js ''Acme''))
       (OptObject example_options)))"

definition generated :: "jsstring \<Rightarrow> options \<Rightarrow> LogoConfiguration" where
  "generated n opts =
     projr (fst (generateLogoConfig ascii_toUpperCase example_world (JStr n) (OptObject opts)))"

definition tabbed_name :: jsstring where
  "tabbed_name = js ''Nexus'' @ [0x09] @ js ''Labs''"

definition long_name :: jsstring where
  "long_name = replicate 51 (unit_of CHR ''a'')"

text \<open>
  The text of the numbers that the exporter interpolates for the two configurations below:
  64 for the font size, 5.2 for the letter spacing.
\<close>

definition example_num :: "real \<Rightarrow> string" where
  "example_num x = (if x = 64 then ''64'' else if x = 26 / 5 then ''5.2'' else ''0'')"

definition brand_config :: LogoConfiguration where
  "brand_config = generated (js ''brand'') example_options"



definition post :: "body_fields \<Rightarrow> request" where
  "post b = \<lparr>req_method = ''POST'', req_body = BodyObject b\<rparr>"

definition named :: "jsstring \<Rightarrow> body_fields" where
  "named s = \<lparr>body_name = JStr s, body_count = JUndefined, body_filters = OptUndefined\<rparr>"


definition answer :: "request \<Rightarrow> response" where
  "answer req = fst (handler ascii_toUpperCase example_world req)"

section \<open>Properties of the generator\<close>

lemma rnd_bounds: "0 \<le> rnd w i" "rnd w i < 1"
  using Rep_draw [of "draws w (used w + i)"] by (simp_all add: rnd_def)

lemma rnd_advance: "rnd (advance k w) i = rnd w (k + i)"
  by (simp add: rnd_def advance_def add.assoc)

lemma advance_advance: "advance a (advance b w) = advance (b + a) w"
  by (simp add: advance_def add.assoc)

lemma random_index_less:
  assumes "0 \<le> u" "u < 1" "0 < n"
  shows "random_index u n < n"
proof -
  have "u * real n < real n" using assms by simp
  then have "\<lfloor>u * real n\<rfloor> < int n" by (simp add: floor_less_iff)
  moreover have "0 \<le> \<lfloor>u * real n\<rfloor>" using assms by simp
  ultimately show ?thesis by (simp add: random_index_def nat_less_iff)
qed

lemma random_index_interval:
  assumes "0 \<le> u" "0 < n"
  shows "random_index u n = i \<longleftrightarrow> real i / real n \<le> u \<and> u < real (i + 1) / real n"
proof -
  have nn: "0 \<le> u * real n" using assms by simp
  have "random_index u n = i \<longleftrightarrow> \<lfloor>u * real n\<rfloor> = int i"
    using nn by (auto simp: random_index_def)
  also have "\<dots> \<longleftrightarrow> real i \<le> u * real n \<and> u * real n < real i + 1"
    by (auto simp: floor_eq_iff)
  also have "\<dots> \<longleftrightarrow> real i / real n \<le> u \<and> u < real (i + 1) / real n"
    using assms by (simp add: pos_divide_le_eq pos_less_divide_eq add.commute)
  finally show ?thesis .
qed

lemma drawn_member: "arr \<noteq> [] \<Longrightarrow> arr ! random_index (rnd w i) (length arr) \<in> set arr"
  by (simp add: random_index_less rnd_bounds)

lemma pick_eq:
  "pick w arr val =
    (if needs_draw arr val then arr ! random_index (rnd w 0) (length arr) else val,
     advance (of_bool (needs_draw arr val)) w)"
  by (simp add: pick_def Math_random_def advance_def)

lemma keys_COLOR_PALETTES:
  "Object_keys COLOR_PALETTES =
     [''vibrant'', ''neon'', ''pastel'', ''monochrome'', ''golden'', ''ocean'', ''fire'', ''galaxy'']"
  by (simp add: Object_keys_def COLOR_PALETTES_def)

lemma length_keys: "length (Object_keys COLOR_PALETTES) = 8"
  by (simp add: keys_COLOR_PALETTES)

lemma map_of_keys: "map_of COLOR_PALETTES k \<noteq> None \<longleftrightarrow> k \<in> set (Object_keys COLOR_PALETTES)"
  by (simp add: Object_keys_def map_of_eq_None_iff)

lemma four_variants:
  assumes "map_of COLOR_PALETTES k = Some arr"
  shows "length arr = 4"
proof -
  have "(k, arr) \<in> set COLOR_PALETTES" using assms by (rule map_of_SomeD)
  then show ?thesis by (auto simp: COLOR_PALETTES_def)
qed

lemma generator_returns:
  "opts_v \<noteq> OptNull \<Longrightarrow> \<exists>c. fst (generateLogoConfig toUpperCase w (JStr n) opts_v) = Inr c"
  by (cases opts_v) (simp_all add: generateLogoConfig_def Let_def split_beta)

lemma generator_throws: "fst (generateLogoConfig toUpperCase w v OptNull) = Inl TypeError"
  by (simp add: generateLogoConfig_def)

lemma snd_pick: "snd (pick w arr val) = advance (of_bool (needs_draw arr val)) w"
  by (simp add: pick_eq)

lemma fst_pick: "fst (pick w arr val) = claimed_resolution arr val (rnd w 0)"
  by (simp add: pick_eq claimed_resolution_def needs_draw_def)

lemma snd_pickPalette: "snd (pickPalette w t) = advance (of_bool (t = ''random'') + 1) w"
  by (simp add: pickPalette_def Math_random_def Let_def advance_advance split: if_splits)

lemma generator_fields:
  assumes "fst (generateLogoConfig toUpperCase w (JStr n) opts_v) = Inr c"
  shows "name c = n" and "initials c = derive_initials toUpperCase n"
    and "palette c = fst (pickPalette (advance 10 w) (or_random (paletteType (given_options opts_v))))"
  using assms by (cases opts_v; simp add: generateLogoConfig_def Let_def split_beta; force)+

lemma generator_picks:
  fixes opts_v :: options_arg
  defines "opts \<equiv> given_options opts_v"
  defines "k1 \<equiv> 11 + of_bool (or_random (paletteType opts) = ''random'')"
  defines "k2 \<equiv> k1 + of_bool (needs_draw SHAPE_STYLES (or_random (shapeStyle opts)))"
  defines "k3 \<equiv> k2 + of_bool (needs_draw FONT_STYLES (or_random (fontStyle_opt opts)))"
  defines "k4 \<equiv> k3 + of_bool (needs_draw EFFECTS (or_random (effect_opt opts)))"
  defines "k5 \<equiv> k4 + of_bool (needs_draw LAYOUT_MODES (or_random (layoutMode opts)))"
  assumes "fst (generateLogoConfig toUpperCase w (JStr n) opts_v) = Inr c"
  shows "shape c = claimed_resolution SHAPE_STYLES (or_random (shapeStyle opts)) (rnd w k1)"
    and "fontStyle c = claimed_resolution FONT_STYLES (or_random (fontStyle_opt opts)) (rnd w k2)"
    and "effect c = claimed_resolution EFFECTS (or_random (effect_opt opts)) (rnd w k3)"
    and "layout c = claimed_resolution LAYOUT_MODES (or_random (layoutMode opts)) (rnd w k4)"
    and "pattern c = claimed_resolution PATTERNS (or_random (pattern_opt opts)) (rnd w k5)"
proof -
  have ok: "opts_v \<noteq> OptNull"
    using assms(7) by (auto simp: generateLogoConfig_def)
  have c: "c = projr (fst (generateLogoConfig toUpperCase w (JStr n) opts_v))"
    using assms(7) by simp
  show "shape c = claimed_resolution SHAPE_STYLES (or_random (shapeStyle opts)) (rnd w k1)"
    unfolding c using ok
    by (cases opts_v)
      (simp_all add: generateLogoConfig_def Let_def split_beta fst_pick snd_pick snd_pickPalette
        rnd_advance advance_advance opts_def k1_def add.commute)
  show "fontStyle c = claimed_resolution FONT_STYLES (or_random (fontStyle_opt opts)) (rnd w k2)"
    unfolding c using ok
    by (cases opts_v)
      (simp_all add: generateLogoConfig_def Let_def split_beta fst_pick snd_pick snd_pickPalette
        rnd_advance advance_advance opts_def k1_def k2_def add.commute)
  show "effect c = claimed_resolution EFFECTS (or_random (effect_opt opts)) (rnd w k3)"
    unfolding c using ok
    by (cases opts_v)
      (simp_all add: generateLogoConfig_def Let_def split_beta fst_pick snd_pick snd_pickPalette
        rnd_advance advance_advance opts_def k1_def k2_def k3_def add.commute)
  show "layout c = claimed_resolution LAYOUT_MODES (or_random (layoutMode opts)) (rnd w k4)"
    unfolding c using ok
    by (cases opts_v)
      (simp_all add: generateLogoConfig_def Let_def split_beta fst_pick snd_pick snd_pickPalette
        rnd_advance advance_advance opts_def k1_def k2_def k3_def k4_def add.commute)
  show "pattern c = claimed_resolution PATTERNS (or_random (pattern_opt opts)) (rnd w k5)"
    unfolding c using ok
    by (cases opts_v)
      (simp_all add: generateLogoConfig_def Let_def split_beta fst_pick snd_pick snd_pickPalette
        rnd_advance advance_advance opts_def k1_def k2_def k3_def k4_def k5_def add.commute)
qed


subsection \<open>The palette\<close>

lemma js_in_COLOR_PALETTES:
  "js_in t COLOR_PALETTES \<longleftrightarrow>
     t \<in> set (Object_keys COLOR_PALETTES) \<or> t \<in> set Object_prototype_keys"
proof (cases "map_of COLOR_PALETTES t")
  case None
  then show ?thesis
    using map_of_keys [of t] by (simp add: js_in_def get_property_def)
next
  case (Some arr)
  then show ?thesis
    using map_of_keys [of t] by (simp add: js_in_def get_property_def)
qed

lemma inherited_not_own:
  assumes "t \<in> set Object_prototype_keys"
  shows "map_of COLOR_PALETTES t = None"
proof -
  have "t \<notin> set (Object_keys COLOR_PALETTES)"
    using assms unfolding keys_COLOR_PALETTES Object_prototype_keys_def by auto
  then show ?thesis
    using map_of_keys [of t] by simp
qed

lemma pickPalette_eq:
  "pickPalette w t =
    (spread_palette
       (case get_property COLOR_PALETTES (palette_key w t) of
          Some (Own arr) \<Rightarrow>
            element arr (random_index (rnd w (of_bool (t = ''random''))) (length arr))
        | Some Inherited \<Rightarrow> None
        | None \<Rightarrow> None)
       (palette_key w t),
     advance (of_bool (t = ''random'') + 1) w)"
proof (cases "t = ''random''")
  case True
  then show ?thesis
    by (simp add: pickPalette_def Math_random_def palette_key_def length_keys Let_def
        rnd_advance advance_advance cong: option.case_cong property.case_cong)
next
  case False
  then show ?thesis
    by (simp add: pickPalette_def Math_random_def palette_key_def Let_def
        keys_COLOR_PALETTES)
qed

lemma paletteName_spread: "paletteName (spread_palette v k) = k"
  by (simp add: spread_palette_def split: option.splits)

lemma palette_name: "paletteName (fst (pickPalette w t)) = palette_key w t"
  by (simp add: pickPalette_eq paletteName_spread)

lemma palette_key_own:
  assumes "t \<notin> set Object_prototype_keys"
  shows "palette_key w t \<in> set (Object_keys COLOR_PALETTES)"
proof -
  have "Object_keys COLOR_PALETTES ! random_index (rnd w 0) (length (Object_keys COLOR_PALETTES))
      \<in> set (Object_keys COLOR_PALETTES)"
    by (rule drawn_member) (simp add: keys_COLOR_PALETTES)
  then have "Object_keys COLOR_PALETTES ! random_index (rnd w 0) 8 \<in> set (Object_keys COLOR_PALETTES)"
    by (simp add: length_keys)
  moreover have "''vibrant'' \<in> set (Object_keys COLOR_PALETTES)"
    by (simp add: keys_COLOR_PALETTES)
  ultimately show ?thesis
    using assms by (simp add: palette_key_def js_in_COLOR_PALETTES)
qed

lemma palette_variant:
  assumes "map_of COLOR_PALETTES (palette_key w t) = Some arr"
  shows "fst (pickPalette w t) =
    spread_palette (Some (arr ! random_index (rnd w (of_bool (t = ''random''))) 4))
      (palette_key w t)"
proof -
  have len: "length arr = 4" using assms by (rule four_variants)
  have idx: "random_index (rnd w (of_bool (t = ''random''))) 4 < 4"
    by (rule random_index_less) (simp_all add: rnd_bounds)
  have got: "get_property COLOR_PALETTES (palette_key w t) = Some (Own arr)"
    using assms by (simp add: get_property_def)
  show ?thesis
    using idx by (simp add: pickPalette_eq got len element_def)
qed

lemma palette_inherited:
  assumes "t \<in> set Object_prototype_keys"
  shows "fst (pickPalette w t) = spread_palette None t"
proof -
  have nr: "t \<noteq> ''random''" using assms by (auto simp: Object_prototype_keys_def)
  have "get_property COLOR_PALETTES t = Some Inherited"
    using assms by (simp add: get_property_def inherited_not_own)
  moreover have "palette_key w t = t"
    using nr assms by (simp add: palette_key_def js_in_COLOR_PALETTES)
  ultimately show ?thesis
    by (simp add: pickPalette_eq)
qed


lemma rnd_example: "rnd example_world i = 9 / 10"
  by (simp add: rnd_def example_world_def draw_of.rep_eq)

lemma rnd_other: "rnd other_world i = 1 / 2"
  by (simp add: rnd_def other_world_def example_world_def draw_of.rep_eq)

lemma generated_Inr:
  "fst (generateLogoConfig ascii_toUpperCase example_world (JStr n) (OptObject opts)) = Inr (generated n opts)"
  using generator_returns [of "OptObject opts" ascii_toUpperCase example_world n]
  by (auto simp: generated_def)

lemma example_config_Inr:
  "fst (generateLogoConfig ascii_toUpperCase example_world (JStr (js ''Acme'')) (OptObject example_options))
     = Inr example_config"
  using generated_Inr [of "js ''Acme''" example_options]
  by (simp add: example_config_def generated_def)

subsection \<open>C1\<close>

text \<open>
  C1, as amended. Each of the five fields \<open>shape\<close>, \<open>fontStyle\<close>, \<open>effect\<close>, \<open>layout\<close>
  and \<open>pattern\<close> of a generated configuration is its filter resolved by the rule of the
  specification, each with a random number of its own: a filter that is \<^verbatim>\<open>"random"\<close> or
  no member of the closed set resolves to the member at index \<open>\<lfloor>u * 8\<rfloor>\<close>, any other
  filter to itself. The index map is uniform: member \<open>i\<close> of \<open>m\<close> is selected exactly by
  the random numbers of the interval from \<open>i / m\<close> to \<open>(i + 1) / m\<close>. The palette
  category follows the rule for \<^verbatim>\<open>"random"\<close> and for a category of the table; a value that
  is neither, and no property name that every object inherits, resolves to the first category
  \<^verbatim>\<open>vibrant\<close> whatever the random numbers are. The palette is then the variant of that
  category at index \<open>\<lfloor>u * 4\<rfloor>\<close>, for the next random number \<open>u\<close>.
\<close>

theorem filters_resolved:
  fixes opts_v :: options_arg
  defines "opts \<equiv> given_options opts_v"
  defines "pt \<equiv> or_random (paletteType opts)"
  defines "k0 \<equiv> 10 + of_bool (pt = ''random'')"
  defines "k1 \<equiv> 11 + of_bool (pt = ''random'')"
  defines "k2 \<equiv> k1 + of_bool (needs_draw SHAPE_STYLES (or_random (shapeStyle opts)))"
  defines "k3 \<equiv> k2 + of_bool (needs_draw FONT_STYLES (or_random (fontStyle_opt opts)))"
  defines "k4 \<equiv> k3 + of_bool (needs_draw EFFECTS (or_random (effect_opt opts)))"
  defines "k5 \<equiv> k4 + of_bool (needs_draw LAYOUT_MODES (or_random (layoutMode opts)))"
  assumes gen: "fst (generateLogoConfig toUpperCase w (JStr n) opts_v) = Inr c"
  shows
    "shape c = claimed_resolution SHAPE_STYLES (or_random (shapeStyle opts)) (rnd w k1) \<and>
     fontStyle c = claimed_resolution FONT_STYLES (or_random (fontStyle_opt opts)) (rnd w k2) \<and>
     effect c = claimed_resolution EFFECTS (or_random (effect_opt opts)) (rnd w k3) \<and>
     layout c = claimed_resolution LAYOUT_MODES (or_random (layoutMode opts)) (rnd w k4) \<and>
     pattern c = claimed_resolution PATTERNS (or_random (pattern_opt opts)) (rnd w k5) \<and>
     (pt \<notin> set Object_prototype_keys \<longrightarrow>
        paletteName (palette c) =
          (if pt = ''random'' \<or> pt \<in> set (Object_keys COLOR_PALETTES)
           then claimed_resolution (Object_keys COLOR_PALETTES) pt (rnd w 10)
           else ''vibrant'') \<and>
        (\<exists>arr. map_of COLOR_PALETTES (paletteName (palette c)) = Some arr \<and>
           palette c =
             spread_palette (Some (arr ! random_index (rnd w k0) (length arr)))
               (paletteName (palette c)))) \<and>
     (\<forall>i m j. 0 < m \<longrightarrow>
        random_index (rnd w j) m < m \<and>
        (random_index (rnd w j) m = i
           \<longleftrightarrow> real i / real m \<le> rnd w j \<and> rnd w j < real (i + 1) / real m))"
proof -
  have p1: "shape c = claimed_resolution SHAPE_STYLES (or_random (shapeStyle opts)) (rnd w k1)"
    using generator_picks(1) [OF gen] by (simp only: opts_def pt_def k1_def)
  have p2: "fontStyle c =
      claimed_resolution FONT_STYLES (or_random (fontStyle_opt opts)) (rnd w k2)"
    using generator_picks(2) [OF gen] by (simp only: opts_def pt_def k1_def k2_def)
  have p3: "effect c = claimed_resolution EFFECTS (or_random (effect_opt opts)) (rnd w k3)"
    using generator_picks(3) [OF gen] by (simp only: opts_def pt_def k1_def k2_def k3_def)
  have p4: "layout c =
      claimed_resolution LAYOUT_MODES (or_random (layoutMode opts)) (rnd w k4)"
    using generator_picks(4) [OF gen]
    by (simp only: opts_def pt_def k1_def k2_def k3_def k4_def)
  have p5: "pattern c = claimed_resolution PATTERNS (or_random (pattern_opt opts)) (rnd w k5)"
    using generator_picks(5) [OF gen]
    by (simp only: opts_def pt_def k1_def k2_def k3_def k4_def k5_def)
  have pal: "palette c = fst (pickPalette (advance 10 w) pt)"
    using generator_fields(3) [OF gen] by (simp add: opts_def pt_def)
  have key: "paletteName (palette c) = palette_key (advance 10 w) pt"
    by (simp add: pal palette_name)
  have own_palette: "pt \<notin> set Object_prototype_keys \<longrightarrow>
        paletteName (palette c) =
          (if pt = ''random'' \<or> pt \<in> set (Object_keys COLOR_PALETTES)
           then claimed_resolution (Object_keys COLOR_PALETTES) pt (rnd w 10)
           else ''vibrant'') \<and>
        (\<exists>arr. map_of COLOR_PALETTES (paletteName (palette c)) = Some arr \<and>
           palette c =
             spread_palette (Some (arr ! random_index (rnd w k0) (length arr)))
               (paletteName (palette c)))"
  proof
    assume own: "pt \<notin> set Object_prototype_keys"
    have name: "paletteName (palette c) =
         (if pt = ''random'' \<or> pt \<in> set (Object_keys COLOR_PALETTES)
          then claimed_resolution (Object_keys COLOR_PALETTES) pt (rnd w 10)
          else ''vibrant'')"
      using own
      by (simp add: key palette_key_def claimed_resolution_def js_in_COLOR_PALETTES rnd_advance
          length_keys)
    have "palette_key (advance 10 w) pt \<in> set (Object_keys COLOR_PALETTES)"
      using own by (rule palette_key_own)
    then obtain arr where arr: "map_of COLOR_PALETTES (palette_key (advance 10 w) pt) = Some arr"
      using map_of_keys [of "palette_key (advance 10 w) pt"] by blast
    have "palette c =
        spread_palette (Some (arr ! random_index (rnd w k0) (length arr)))
          (paletteName (palette c))"
      using palette_variant [OF arr] four_variants [OF arr]
      by (simp add: pal key rnd_advance k0_def paletteName_spread)
    then have variant: "\<exists>arr. map_of COLOR_PALETTES (paletteName (palette c)) = Some arr \<and>
          palette c =
            spread_palette (Some (arr ! random_index (rnd w k0) (length arr)))
              (paletteName (palette c))"
      using arr key by simp
    show "paletteName (palette c) =
          (if pt = ''random'' \<or> pt \<in> set (Object_keys COLOR_PALETTES)
           then claimed_resolution (Object_keys COLOR_PALETTES) pt (rnd w 10)
           else ''vibrant'') \<and>
        (\<exists>arr. map_of COLOR_PALETTES (paletteName (palette c)) = Some arr \<and>
           palette c =
             spread_palette (Some (arr ! random_index (rnd w k0) (length arr)))
               (paletteName (palette c)))"
      using name variant by (rule conjI)
  qed
  have uniform: "\<forall>i m j. 0 < m \<longrightarrow>
        random_index (rnd w j) m < m \<and>
        (random_index (rnd w j) m = i
           \<longleftrightarrow> real i / real m \<le> rnd w j \<and> rnd w j < real (i + 1) / real m)"
  proof (intro allI impI conjI)
    fix i m j
    assume m: "(0::nat) < m"
    show "random_index (rnd w j) m < m"
      using rnd_bounds m by (rule random_index_less)
    show "random_index (rnd w j) m = i
           \<longleftrightarrow> real i / real m \<le> rnd w j \<and> rnd w j < real (i + 1) / real m"
      using rnd_bounds(1) m by (rule random_index_interval)
  qed
  show ?thesis
    by (intro conjI) (rule p1 p2 p3 p4 p5 own_palette uniform)+
qed


theorem filters_resolved_witness:
  "shape example_config = ''star'' \<and> fontStyle example_config = ''sharp'' \<and>
   effect example_config = ''glass'' \<and> layout example_config = ''monogram'' \<and>
   pattern example_config = ''circuits'' \<and>
   paletteName (palette example_config) = ''ocean'' \<and>
   primary (palette example_config) = Some ''#4CC9F0''"
proof -
  have opts: "given_options (OptObject example_options) = example_options"
    by (simp add: given_options_def)
  have own: "or_random (paletteType (given_options (OptObject example_options)))
      \<notin> set Object_prototype_keys"
    by (simp add: given_options_def example_options_def no_options_def or_random_def
        Object_prototype_keys_def)
  note r = filters_resolved [OF example_config_Inr, unfolded opts]
  note own' = own [unfolded opts]
  have "shape example_config = ''star''"
    using r by (simp add: example_options_def no_options_def or_random_def
        claimed_resolution_def SHAPE_STYLES_def)
  moreover have "fontStyle example_config = ''sharp''"
    using r by (simp add: example_options_def no_options_def or_random_def
        claimed_resolution_def FONT_STYLES_def rnd_example random_index_def)
  moreover have "effect example_config = ''glass''"
    using r by (simp add: example_options_def no_options_def or_random_def
        claimed_resolution_def EFFECTS_def rnd_example random_index_def)
  moreover have "layout example_config = ''monogram''"
    using r by (simp add: example_options_def no_options_def or_random_def
        claimed_resolution_def LAYOUT_MODES_def rnd_example random_index_def)
  moreover have "pattern example_config = ''circuits''"
    using r by (simp add: example_options_def no_options_def or_random_def
        claimed_resolution_def PATTERNS_def rnd_example random_index_def)
  moreover have pn: "paletteName (palette example_config) = ''ocean''"
    using r own' by (simp add: example_options_def no_options_def or_random_def
        claimed_resolution_def keys_COLOR_PALETTES)
  moreover have "primary (palette example_config) = Some ''#4CC9F0''"
  proof -
    from r own' obtain arr where arr: "map_of COLOR_PALETTES (paletteName (palette example_config)) = Some arr"
      and pal: "palette example_config =
          spread_palette (Some (arr ! random_index (rnd example_world
             (10 + of_bool (or_random (paletteType example_options) = ''random''))) (length arr)))
            (paletteName (palette example_config))"
      by blast
    have "arr = [mk_variant ''#00B4D8'' ''#0077B6'' ''#90E0EF'' ''#03045E'',
         mk_variant ''#48CAE4'' ''#023E8A'' ''#ADE8F4'' ''#03045E'',
         mk_variant ''#06D6A0'' ''#0496FF'' ''#FFBC42'' ''#0A1628'',
         mk_variant ''#4CC9F0'' ''#4361EE'' ''#7400B8'' ''#03045E'']"
      using arr unfolding pn by (simp add: COLOR_PALETTES_def)
    then show ?thesis
      by (subst pal) (simp add: rnd_example random_index_def spread_palette_def mk_variant_def)
  qed
  ultimately show ?thesis by blast
qed

theorem invalid_palette_is_vibrant:
  "paletteName (palette (generated (js ''Acme'') (no_options\<lparr>paletteType := Some ''bogus''\<rparr>)))
     = ''vibrant'' \<and>
   claimed_resolution (Object_keys COLOR_PALETTES) ''bogus'' (rnd example_world 10) = ''galaxy''"
proof -
  have "palette (generated (js ''Acme'') (no_options\<lparr>paletteType := Some ''bogus''\<rparr>))
      = fst (pickPalette (advance 10 example_world) ''bogus'')"
    using generator_fields(3) [OF generated_Inr]
    by (simp add: given_options_def no_options_def or_random_def)
  moreover have "palette_key (advance 10 example_world) ''bogus'' = ''vibrant''"
    by (simp add: palette_key_def js_in_COLOR_PALETTES keys_COLOR_PALETTES
        Object_prototype_keys_def)
  ultimately show ?thesis
    by (simp add: palette_name claimed_resolution_def keys_COLOR_PALETTES rnd_example
        random_index_def)
qed

subsection \<open>C2\<close>

text \<open>
  C2 fails on the code at the filter \<^verbatim>\<open>paletteType: "toString"\<close>: that is a property
  every object inherits, so \<^verbatim>\<open>paletteType in COLOR_PALETTES\<close> holds, the stored category
  is \<^verbatim>\<open>toString\<close>, which is no category of the catalogue, and the palette has no colour.
\<close>

theorem inherited_palette_key_stored:
  "paletteName (palette (generated (js ''Acme'') (no_options\<lparr>paletteType := Some ''toString''\<rparr>)))
     = ''toString'' \<and>
   ''toString'' \<notin> set (Object_keys COLOR_PALETTES) \<and>
   primary (palette (generated (js ''Acme'') (no_options\<lparr>paletteType := Some ''toString''\<rparr>))) = None \<and>
   secondary (palette (generated (js ''Acme'') (no_options\<lparr>paletteType := Some ''toString''\<rparr>))) = None \<and>
   accent (palette (generated (js ''Acme'') (no_options\<lparr>paletteType := Some ''toString''\<rparr>))) = None \<and>
   bg (palette (generated (js ''Acme'') (no_options\<lparr>paletteType := Some ''toString''\<rparr>))) = None"
proof -
  have "palette (generated (js ''Acme'') (no_options\<lparr>paletteType := Some ''toString''\<rparr>))
      = fst (pickPalette (advance 10 example_world) ''toString'')"
    using generator_fields(3) [OF generated_Inr]
    by (simp add: given_options_def no_options_def or_random_def)
  moreover have "''toString'' \<in> set Object_prototype_keys"
    by (simp add: Object_prototype_keys_def)
  ultimately have "palette (generated (js ''Acme'') (no_options\<lparr>paletteType := Some ''toString''\<rparr>))
      = spread_palette None ''toString''"
    by (simp add: palette_inherited)
  then show ?thesis
    by (simp add: spread_palette_def keys_COLOR_PALETTES)
qed


text \<open>
  Apart from the inherited property names the invariant holds: every enumerable field of a
  generated configuration is a member of its closed set, \<^verbatim>\<open>random\<close> is never stored, and
  the palette is one of the variants of the stored category.
\<close>

lemma claimed_resolution_member:
  assumes "arr \<noteq> []"
  shows "claimed_resolution arr val (rnd w i) \<in> set arr"
  using assms drawn_member [of arr w i] by (simp add: claimed_resolution_def)

lemma enumerable_fields_closed:
  assumes gen: "fst (generateLogoConfig toUpperCase w (JStr n) opts_v) = Inr c"
  shows "shape c \<in> set SHAPE_STYLES" and "fontStyle c \<in> set FONT_STYLES"
    and "effect c \<in> set EFFECTS" and "layout c \<in> set LAYOUT_MODES"
    and "pattern c \<in> set PATTERNS"
proof -
  show "shape c \<in> set SHAPE_STYLES"
    unfolding generator_picks(1) [OF gen]
    by (rule claimed_resolution_member) (simp add: SHAPE_STYLES_def)
  show "fontStyle c \<in> set FONT_STYLES"
    unfolding generator_picks(2) [OF gen]
    by (rule claimed_resolution_member) (simp add: FONT_STYLES_def)
  show "effect c \<in> set EFFECTS"
    unfolding generator_picks(3) [OF gen]
    by (rule claimed_resolution_member) (simp add: EFFECTS_def)
  show "layout c \<in> set LAYOUT_MODES"
    unfolding generator_picks(4) [OF gen]
    by (rule claimed_resolution_member) (simp add: LAYOUT_MODES_def)
  show "pattern c \<in> set PATTERNS"
    unfolding generator_picks(5) [OF gen]
    by (rule claimed_resolution_member) (simp add: PATTERNS_def)
qed

lemma random_never_stored:
  assumes gen: "fst (generateLogoConfig toUpperCase w (JStr n) opts_v) = Inr c"
  shows "shape c \<noteq> ''random''" and "fontStyle c \<noteq> ''random''" and "effect c \<noteq> ''random''"
    and "layout c \<noteq> ''random''" and "pattern c \<noteq> ''random''"
proof -
  have "''random'' \<notin> set SHAPE_STYLES" "''random'' \<notin> set FONT_STYLES"
    "''random'' \<notin> set EFFECTS" "''random'' \<notin> set LAYOUT_MODES" "''random'' \<notin> set PATTERNS"
    by (simp_all add: SHAPE_STYLES_def FONT_STYLES_def EFFECTS_def LAYOUT_MODES_def PATTERNS_def)
  then show "shape c \<noteq> ''random''" and "fontStyle c \<noteq> ''random''"
    and "effect c \<noteq> ''random''" and "layout c \<noteq> ''random''" and "pattern c \<noteq> ''random''"
    using enumerable_fields_closed [OF gen] by metis+
qed

lemma palette_from_category:
  assumes gen: "fst (generateLogoConfig toUpperCase w (JStr n) opts_v) = Inr c"
    and own: "or_random (paletteType (given_options opts_v)) \<notin> set Object_prototype_keys"
  shows "paletteName (palette c) \<in> set (Object_keys COLOR_PALETTES)"
    and "\<exists>arr v. map_of COLOR_PALETTES (paletteName (palette c)) = Some arr \<and> v \<in> set arr \<and>
      palette c = spread_palette (Some v) (paletteName (palette c))"
proof -
  let ?t = "or_random (paletteType (given_options opts_v))"
  have pal: "palette c = fst (pickPalette (advance 10 w) ?t)"
    using gen by (rule generator_fields(3))
  have key: "paletteName (palette c) = palette_key (advance 10 w) ?t"
    by (simp add: pal palette_name)
  show member: "paletteName (palette c) \<in> set (Object_keys COLOR_PALETTES)"
    unfolding key using own by (rule palette_key_own)
  then obtain arr where arr: "map_of COLOR_PALETTES (palette_key (advance 10 w) ?t) = Some arr"
    using map_of_keys [of "paletteName (palette c)"] key by auto
  have len: "length arr = 4"
    using arr by (rule four_variants)
  have "random_index (rnd (advance 10 w) (of_bool (?t = ''random''))) 4 < 4"
    by (rule random_index_less) (simp_all add: rnd_bounds)
  then have "arr ! random_index (rnd (advance 10 w) (of_bool (?t = ''random''))) 4 \<in> set arr"
    by (simp add: len)
  then show "\<exists>arr v. map_of COLOR_PALETTES (paletteName (palette c)) = Some arr \<and> v \<in> set arr \<and>
      palette c = spread_palette (Some v) (paletteName (palette c))"
    using arr palette_variant [OF arr] by (auto simp: key pal paletteName_spread)
qed

section \<open>Strings\<close>

lemma unit_of_inj: "unit_of a = unit_of b \<longleftrightarrow> a = b"
proof
  assume eq: "unit_of a = unit_of b"
  have small: "of_char c < (2::nat) ^ LENGTH(16)" for c :: char
  proof -
    have "(of_char c :: nat) < 256" by (rule nat_of_char_less_256)
    also have "(256::nat) < 2 ^ LENGTH(16)" by simp
    finally show ?thesis .
  qed
  have "unat (unit_of c) = of_char c" for c :: char
    unfolding unit_of_def using small [of c] by (simp add: unat_of_nat take_bit_nat_eq_self)
  then have "(of_char a :: nat) = of_char b"
    using eq by metis
  then show "a = b" by simp
qed simp

lemma js_inj: "js a = js b \<longleftrightarrow> a = b"
  unfolding js_def by (rule inj_map_eq_map) (simp add: inj_on_def unit_of_inj)

lemma uppercases_ascii_example: "uppercases_ascii ascii_toUpperCase"
  by (simp add: uppercases_ascii_def ascii_toUpperCase_def)

lemma upper_one:
  assumes "uppercases_ascii toUpperCase" and "u < 0x80"
  shows "toUpperCase [u] = [upper_unit u]"
  using assms by (simp add: uppercases_ascii_def)

section \<open>The initials\<close>

lemma derive_initials_nonempty: "derive_initials toUpperCase n \<noteq> []"
  by (simp add: derive_initials_def Let_def js_def)

lemma derive_initials_empty: "derive_initials toUpperCase [] = js ''L''"
  by (simp add: derive_initials_def letters_of_def split_char_def first_upper_def)

lemma split_where_nonempty: "split_where p s \<noteq> []"
  by (induction s) (simp_all split: list.splits)

lemma split_where_cong:
  "(\<And>c. c \<in> set s \<Longrightarrow> p c = q c) \<Longrightarrow> split_where p s = split_where q s"
  by (induction s) simp_all

lemma split_where_snoc: "p c \<Longrightarrow> split_where p (s @ [c]) = split_where p s @ [[]]"
proof (induction s)
  case Nil
  then show ?case by simp
next
  case (Cons a s)
  then show ?case
    using split_where_nonempty [of p s] by (cases "split_where p s") simp_all
qed

lemma letters_of_filter:
  "letters_of toUpperCase (filter (\<lambda>w. w \<noteq> []) pieces) = letters_of toUpperCase pieces"
  by (induction pieces) (simp_all add: letters_of_def first_upper_def)

lemma letters_of_dropWhile:
  "letters_of toUpperCase (split_where p (dropWhile p s)) = letters_of toUpperCase (split_where p s)"
  by (induction s) (simp_all add: letters_of_def first_upper_def)

lemma letters_of_drop_trailing:
  "letters_of toUpperCase (split_where p (rev (dropWhile p (rev s))))
     = letters_of toUpperCase (split_where p s)"
proof (induction s rule: rev_induct)
  case Nil
  then show ?case by simp
next
  case (snoc x xs)
  show ?case
  proof (cases "p x")
    case True
    then show ?thesis
      using snoc by (simp add: split_where_snoc letters_of_def first_upper_def)
  next
    case False
    then show ?thesis by simp
  qed
qed

lemma letters_of_trim:
  "letters_of toUpperCase (split_where is_ws (trim s)) = letters_of toUpperCase (split_where is_ws s)"
  by (simp add: trim_def letters_of_drop_trailing letters_of_dropWhile)

lemma derive_initials_claimed:
  assumes "\<forall>u\<in>set n. is_ws u \<longrightarrow> u = 0x20"
  shows "derive_initials toUpperCase n = claimed_initials toUpperCase n"
proof -
  have "split_where is_ws n = split_where (\<lambda>c. c = 0x20) n"
  proof (rule split_where_cong)
    fix c assume "c \<in> set n"
    then show "is_ws c = (c = 0x20)"
      using assms by (auto simp: is_ws_def)
  qed
  then have eq: "letters_of toUpperCase (filter (\<lambda>w. w \<noteq> []) (split_where is_ws (trim n)))
      = letters_of toUpperCase (split_char 0x20 n)"
    by (simp add: letters_of_filter letters_of_trim split_char_def)
  show ?thesis
    unfolding derive_initials_def claimed_initials_def Let_def by (simp only: eq)
qed

text \<open>
  The first piece of a name that does not begin with a separator begins with the first code
  unit of the name.
\<close>

lemma letters_of_first:
  assumes "\<not> p c"
  shows "\<exists>rest. letters_of toUpperCase (split_where p (c # cs)) = toUpperCase [c] @ rest"
proof (cases "split_where p cs")
  case Nil
  then show ?thesis
    using split_where_nonempty [of p cs] by simp
next
  case (Cons piece pieces)
  then show ?thesis
    using assms by (simp add: letters_of_def first_upper_def)
qed

text \<open>
  The second branch of the derivation is taken for a name that begins with a space only,
  and a space is uppercased to itself: the initials have at most three code units although
  the uppercase of one code unit can have more than one.
\<close>

lemma derive_initials_length:
  assumes "toUpperCase [0x20] = [0x20]"
  shows "length (derive_initials toUpperCase n) \<le> 3"
proof (cases "take 3 (letters_of toUpperCase (split_char 0x20 n)) = []")
  case False
  then show ?thesis
    by (simp add: derive_initials_def Let_def)
next
  case True
  show ?thesis
  proof (cases n)
    case Nil
    then show ?thesis
      by (simp add: derive_initials_empty js_def)
  next
    case (Cons c cs)
    show ?thesis
    proof (cases "c = 0x20")
      case sp: True
      then have "first_upper toUpperCase n = [0x20]"
        using assms by (simp add: Cons first_upper_def)
      then show ?thesis
        using True by (simp add: derive_initials_def Let_def)
    next
      case other: False
      obtain rest where
        "letters_of toUpperCase (split_where (\<lambda>u. u = 0x20) (c # cs)) = toUpperCase [c] @ rest"
        using letters_of_first [of "\<lambda>u. u = 0x20" c toUpperCase cs] other by blast
      then have "toUpperCase [c] = []"
        using True by (simp add: Cons split_char_def)
      then have "first_upper toUpperCase n = []"
        by (simp add: Cons first_upper_def)
      then show ?thesis
        using True by (simp add: derive_initials_def Let_def js_def)
    qed
  qed
qed

lemma initials_examples:
  assumes "uppercases_ascii toUpperCase"
  shows "derive_initials toUpperCase (js ''Nexus Labs'') = js ''NL''"
    and "derive_initials toUpperCase (js ''nova'') = js ''N''"
proof -
  have up: "toUpperCase [0x4E] = [0x4E]" "toUpperCase [0x4C] = [0x4C]" "toUpperCase [0x6E] = [0x4E]"
    using upper_one [OF assms, of "0x4E"] upper_one [OF assms, of "0x4C"]
      upper_one [OF assms, of "0x6E"]
    by (simp_all add: upper_unit_def)
  show "derive_initials toUpperCase (js ''Nexus Labs'') = js ''NL''"
    by (simp add: derive_initials_def letters_of_def split_char_def first_upper_def js_def
        unit_of_def up)
  show "derive_initials toUpperCase (js ''nova'') = js ''N''"
    by (simp add: derive_initials_def letters_of_def split_char_def first_upper_def js_def
        unit_of_def up)
qed

subsection \<open>C3\<close>

text \<open>
  C3, as amended. The \<open>initials\<close> of a generated configuration are never empty. They are
  derived as the specification says, but the name is split at every space character and at no
  other white space, and it is not trimmed first: the first code unit of each piece that is
  not empty is uppercased, the results are concatenated and truncated to three code units;
  when that yields nothing, the first code unit of the raw name uppercased, and the letter L
  when there is none. For a name whose only white space is the space character this is the
  derivation of the specification, from the trimmed name split on white space. All of this
  holds whatever \<^verbatim>\<open>toUpperCase\<close> does; for one that maps ASCII text as the one of
  JavaScript does, the initials have at most three code units, the initials of
  \<^verbatim>\<open>Nexus Labs\<close> are \<^verbatim>\<open>NL\<close> and those of \<^verbatim>\<open>nova\<close> are \<^verbatim>\<open>N\<close>.
\<close>

theorem initials_derived:
  assumes "fst (generateLogoConfig toUpperCase w (JStr n) opts_v) = Inr c"
  shows "initials c \<noteq> [] \<and>
    initials c =
      (let joined =
         take 3 (letters_of toUpperCase (filter (\<lambda>w. w \<noteq> []) (split_char 0x20 n)))
       in if joined \<noteq> [] then joined
          else if first_upper toUpperCase n \<noteq> [] then first_upper toUpperCase n
          else js ''L'') \<and>
    ((\<forall>u\<in>set n. is_ws u \<longrightarrow> u = 0x20) \<longrightarrow> initials c = claimed_initials toUpperCase n) \<and>
    (uppercases_ascii toUpperCase \<longrightarrow>
       length (initials c) \<le> 3 \<and>
       (n = js ''Nexus Labs'' \<longrightarrow> initials c = js ''NL'') \<and>
       (n = js ''nova'' \<longrightarrow> initials c = js ''N''))"
proof -
  have i: "initials c = derive_initials toUpperCase n"
    using assms by (rule generator_fields(2))
  have formula: "derive_initials toUpperCase n =
      (let joined =
         take 3 (letters_of toUpperCase (filter (\<lambda>w. w \<noteq> []) (split_char 0x20 n)))
       in if joined \<noteq> [] then joined
          else if first_upper toUpperCase n \<noteq> [] then first_upper toUpperCase n
          else js ''L'')"
    unfolding letters_of_filter by (simp only: derive_initials_def)
  have bound: "length (derive_initials toUpperCase n) \<le> 3" if "uppercases_ascii toUpperCase"
  proof -
    have "toUpperCase [0x20] = [0x20]"
      using upper_one [OF that, of "0x20"] by (simp add: upper_unit_def)
    then show ?thesis by (rule derive_initials_length)
  qed
  show ?thesis
    unfolding i
    using derive_initials_nonempty [of toUpperCase n] formula bound
      derive_initials_claimed [of n toUpperCase] initials_examples [of toUpperCase]
    by blast
qed

theorem initials_derived_witness:
  "initials (generated (js ''Nexus Labs'') no_options) = js ''NL'' \<and>
   claimed_initials ascii_toUpperCase (js ''Nexus Labs'') = js ''NL'' \<and>
   length (initials (generated (js ''Nexus Labs'') no_options)) \<le> 3 \<and>
   initials (generated (js ''Nexus Labs'') no_options) \<noteq> []"
proof -
  have ws: "\<forall>u\<in>set (js ''Nexus Labs''). is_ws u \<longrightarrow> u = 0x20"
    by (simp add: is_ws_def js_def unit_of_def)
  note r = initials_derived [OF generated_Inr, of "js ''Nexus Labs''" no_options]
  have a: "initials (generated (js ''Nexus Labs'') no_options) = js ''NL''"
    using r uppercases_ascii_example by blast
  have b: "initials (generated (js ''Nexus Labs'') no_options)
      = claimed_initials ascii_toUpperCase (js ''Nexus Labs'')"
    using r ws by blast
  have c: "length (initials (generated (js ''Nexus Labs'') no_options)) \<le> 3"
    using r uppercases_ascii_example by blast
  have d: "initials (generated (js ''Nexus Labs'') no_options) \<noteq> []"
    using r by blast
  show ?thesis
    using a b c d by metis
qed

theorem tab_separated_initials:
  "initials (generated tabbed_name no_options) = js ''N'' \<and>
   claimed_initials ascii_toUpperCase tabbed_name = js ''NL''"
proof -
  have "initials (generated tabbed_name no_options) = derive_initials ascii_toUpperCase tabbed_name"
    using generated_Inr by (rule generator_fields(2))
  moreover have "derive_initials ascii_toUpperCase tabbed_name = js ''N''"
    by (simp add: tabbed_name_def derive_initials_def letters_of_def split_char_def first_upper_def
        ascii_toUpperCase_def upper_unit_def js_def unit_of_def)
  moreover have "claimed_initials ascii_toUpperCase tabbed_name = js ''NL''"
    by (simp add: tabbed_name_def claimed_initials_def letters_of_def trim_def is_ws_def
        first_upper_def ascii_toUpperCase_def upper_unit_def js_def unit_of_def)
  ultimately show ?thesis by simp
qed


section \<open>The generator returns a configuration\<close>

lemma spread_Some_colours:
  "primary (spread_palette (Some v) k) \<noteq> None \<and> secondary (spread_palette (Some v) k) \<noteq> None \<and>
   accent (spread_palette (Some v) k) \<noteq> None \<and> bg (spread_palette (Some v) k) \<noteq> None"
  by (simp add: spread_palette_def)

lemma palette_complete:
  assumes "t \<notin> set Object_prototype_keys"
  shows "primary (fst (pickPalette w t)) \<noteq> None \<and> secondary (fst (pickPalette w t)) \<noteq> None \<and>
    accent (fst (pickPalette w t)) \<noteq> None \<and> bg (fst (pickPalette w t)) \<noteq> None"
proof -
  have "palette_key w t \<in> set (Object_keys COLOR_PALETTES)"
    using assms by (rule palette_key_own)
  then obtain arr where "map_of COLOR_PALETTES (palette_key w t) = Some arr"
    using map_of_keys [of "palette_key w t"] by blast
  then show ?thesis
    by (simp only: palette_variant spread_Some_colours simp_thms)
qed

lemma generator_numbers:
  assumes "fst (generateLogoConfig toUpperCase w (JStr n) opts_v) = Inr c"
  shows "rotation c = rnd w 0 * 360" and "scale_c c = 0.7 + rnd w 1 * 0.6"
    and "shapeSize c = 120 + rnd w 2 * 80" and "fontSize c = 24 + rnd w 3 * 24"
    and "letterSpacing c = rnd w 4 * 8 - 2" and "borderRadius c = rnd w 5 * 50"
    and "strokeWidth c = 1 + rnd w 6 * 4" and "glowIntensity c = 5 + rnd w 7 * 20"
    and "innerRotation c = rnd w 8 * 30 - 15" and "decorCount c = 3 + \<lfloor>rnd w 9 * 8\<rfloor>"
  using assms by (cases opts_v; simp add: generateLogoConfig_def Let_def split_beta; force)+

lemma generator_curves:
  assumes "fst (generateLogoConfig toUpperCase w (JStr n) opts_v) = Inr c"
  shows "\<exists>w6 w7. bezierCurves c = [bezier_at w6 0, bezier_at w6 4] \<and> hslShift c = \<lfloor>rnd w7 0 * 360\<rfloor>"
  using assms by (cases opts_v; simp add: generateLogoConfig_def Let_def split_beta; force)

lemma generator_stamp:
  assumes "fst (generateLogoConfig toUpperCase w (JStr n) opts_v) = Inr c"
  shows "logo_id c = uuids w (uuids_used w)" and "timestamp c = clock w"
  using assms
  by (cases opts_v;
      simp add: generateLogoConfig_def Let_def split_beta snd_pick snd_pickPalette advance_advance
        randomUUID_def Date_now_def advance_def;
      force)+

lemma bezier_at_range:
  "- 100 \<le> cx1 (bezier_at w i) \<and> cx1 (bezier_at w i) \<le> 100 \<and>
   - 100 \<le> cy1 (bezier_at w i) \<and> cy1 (bezier_at w i) \<le> 100 \<and>
   - 100 \<le> cx2 (bezier_at w i) \<and> cx2 (bezier_at w i) \<le> 100 \<and>
   - 100 \<le> cy2 (bezier_at w i) \<and> cy2 (bezier_at w i) \<le> 100"
  using rnd_bounds [of w i] rnd_bounds [of w "i + 1"] rnd_bounds [of w "i + 2"]
    rnd_bounds [of w "i + 3"]
  by (simp add: bezier_at_def)

lemma floor_range:
  assumes "0 \<le> u" and "u < 1" and "0 < k"
  shows "0 \<le> \<lfloor>u * real_of_int k\<rfloor>" and "\<lfloor>u * real_of_int k\<rfloor> < k"
proof -
  show "0 \<le> \<lfloor>u * real_of_int k\<rfloor>"
    using assms by simp
  have "u * real_of_int k < real_of_int k"
    using assms by simp
  then show "\<lfloor>u * real_of_int k\<rfloor> < k"
    by (simp add: floor_less_iff)
qed

lemma generator_in_ranges:
  assumes gen: "fst (generateLogoConfig toUpperCase w (JStr n) opts_v) = Inr c"
  shows "in_ranges c"
proof -
  obtain w6 w7 where curves: "bezierCurves c = [bezier_at w6 0, bezier_at w6 4]"
    and hue: "hslShift c = \<lfloor>rnd w7 0 * 360\<rfloor>"
    using generator_curves [OF gen] by blast
  have h: "0 \<le> hslShift c" "hslShift c < 360"
    using floor_range [of "rnd w7 0" 360] rnd_bounds [of w7 0] by (simp_all add: hue)
  have d: "3 \<le> decorCount c" "decorCount c \<le> 10"
    using floor_range [of "rnd w 9" 8] rnd_bounds [of w 9]
    by (simp_all add: generator_numbers(10) [OF gen])
  have b: "\<forall>b\<in>set (bezierCurves c).
         - 100 \<le> cx1 b \<and> cx1 b \<le> 100 \<and> - 100 \<le> cy1 b \<and> cy1 b \<le> 100 \<and>
         - 100 \<le> cx2 b \<and> cx2 b \<le> 100 \<and> - 100 \<le> cy2 b \<and> cy2 b \<le> 100"
    using bezier_at_range [of w6 0] bezier_at_range [of w6 4] by (simp add: curves)
  have l: "length (bezierCurves c) = 2"
    by (simp add: curves)
  have r: "0 \<le> rotation c" "rotation c < 360" "0.7 \<le> scale_c c" "scale_c c \<le> 1.3"
    "120 \<le> shapeSize c" "shapeSize c \<le> 200" "24 \<le> fontSize c" "fontSize c \<le> 48"
    "- 2 \<le> letterSpacing c" "letterSpacing c \<le> 6" "0 \<le> borderRadius c" "borderRadius c \<le> 50"
    "1 \<le> strokeWidth c" "strokeWidth c \<le> 5" "5 \<le> glowIntensity c" "glowIntensity c \<le> 25"
    "- 15 \<le> innerRotation c" "innerRotation c \<le> 15"
    using rnd_bounds [of w 0] rnd_bounds [of w 1] rnd_bounds [of w 2] rnd_bounds [of w 3]
      rnd_bounds [of w 4] rnd_bounds [of w 5] rnd_bounds [of w 6] rnd_bounds [of w 7]
      rnd_bounds [of w 8]
    by (simp_all add: generator_numbers [OF gen])
  show ?thesis
    unfolding in_ranges_def using h d b l r by blast
qed

subsection \<open>C10\<close>

text \<open>
  C10, as amended. With \<^verbatim>\<open>null\<close> as its options \<^verbatim>\<open>generateLogoConfig\<close> throws a
  \<^verbatim>\<open>TypeError\<close> whatever the name is. With any other options, for every string as name,
  the empty one and those of white space only included, it throws nothing and returns a
  configuration: the name is the string unchanged, the initials are not empty, and they are
  the letter L for the empty name; shape, font style, effect, layout and pattern are members of their closed sets;
  the numeric parameters, the two Bezier curves and the hue shift are in their ranges; the
  identifier is the UUID that was handed out and the time stamp the time of the clock. The
  palette has a category of the table and all four colours, the one case apart where the
  palette type is the name of a property that every object inherits.
\<close>

theorem generator_total:
  "(opts_v \<noteq> OptNull \<longrightarrow>
      (\<exists>c. fst (generateLogoConfig toUpperCase w (JStr s) opts_v) = Inr c \<and> name c = s \<and>
         initials c \<noteq> [] \<and> (s = [] \<longrightarrow> initials c = js ''L'') \<and>
         shape c \<in> set SHAPE_STYLES \<and> fontStyle c \<in> set FONT_STYLES \<and>
         effect c \<in> set EFFECTS \<and> layout c \<in> set LAYOUT_MODES \<and> pattern c \<in> set PATTERNS \<and>
         in_ranges c \<and> logo_id c = uuids w (uuids_used w) \<and> timestamp c = clock w \<and>
         (or_random (paletteType (given_options opts_v)) \<notin> set Object_prototype_keys \<longrightarrow>
            paletteName (palette c) \<in> set (Object_keys COLOR_PALETTES) \<and>
            primary (palette c) \<noteq> None \<and> secondary (palette c) \<noteq> None \<and>
            accent (palette c) \<noteq> None \<and> bg (palette c) \<noteq> None))) \<and>
   fst (generateLogoConfig toUpperCase w (JStr s) OptNull) = Inl TypeError"
proof (intro conjI impI)
  assume ok: "opts_v \<noteq> OptNull"
  obtain c where c: "fst (generateLogoConfig toUpperCase w (JStr s) opts_v) = Inr c"
    using generator_returns [OF ok] by blast
  have n: "name c = s" and i: "initials c = derive_initials toUpperCase s"
    using c by (rule generator_fields)+
  have p: "palette c =
      fst (pickPalette (advance 10 w) (or_random (paletteType (given_options opts_v))))"
    using c by (rule generator_fields(3))
  have i1: "initials c \<noteq> []"
    unfolding i by (rule derive_initials_nonempty)
  have i2: "s = [] \<longrightarrow> initials c = js ''L''"
    unfolding i by (simp add: derive_initials_empty)
  have pal: "or_random (paletteType (given_options opts_v)) \<notin> set Object_prototype_keys \<longrightarrow>
            paletteName (palette c) \<in> set (Object_keys COLOR_PALETTES) \<and>
            primary (palette c) \<noteq> None \<and> secondary (palette c) \<noteq> None \<and>
            accent (palette c) \<noteq> None \<and> bg (palette c) \<noteq> None"
    using palette_complete [of "or_random (paletteType (given_options opts_v))" "advance 10 w"]
      palette_from_category(1) [OF c]
    by (simp add: p)
  show "\<exists>c. fst (generateLogoConfig toUpperCase w (JStr s) opts_v) = Inr c \<and> name c = s \<and>
         initials c \<noteq> [] \<and> (s = [] \<longrightarrow> initials c = js ''L'') \<and>
         shape c \<in> set SHAPE_STYLES \<and> fontStyle c \<in> set FONT_STYLES \<and>
         effect c \<in> set EFFECTS \<and> layout c \<in> set LAYOUT_MODES \<and> pattern c \<in> set PATTERNS \<and>
         in_ranges c \<and> logo_id c = uuids w (uuids_used w) \<and> timestamp c = clock w \<and>
         (or_random (paletteType (given_options opts_v)) \<notin> set Object_prototype_keys \<longrightarrow>
            paletteName (palette c) \<in> set (Object_keys COLOR_PALETTES) \<and>
            primary (palette c) \<noteq> None \<and> secondary (palette c) \<noteq> None \<and>
            accent (palette c) \<noteq> None \<and> bg (palette c) \<noteq> None)"
    using c n i1 i2 enumerable_fields_closed [OF c] generator_in_ranges [OF c]
      generator_stamp [OF c] pal
    by blast
next
  show "fst (generateLogoConfig toUpperCase w (JStr s) OptNull) = Inl TypeError"
    by (rule generator_throws)
qed

theorem generator_total_witness:
  "\<exists>c. fst (generateLogoConfig ascii_toUpperCase example_world (JStr []) OptUndefined) = Inr c \<and>
     name c = [] \<and> initials c = js ''L'' \<and> shape c \<in> set SHAPE_STYLES \<and>
     pattern c \<in> set PATTERNS \<and> in_ranges c \<and> primary (palette c) \<noteq> None \<and>
     bg (palette c) \<noteq> None"
proof -
  have "or_random (paletteType (given_options OptUndefined)) \<notin> set Object_prototype_keys"
    by (simp add: given_options_def no_options_def or_random_def Object_prototype_keys_def)
  then show ?thesis
    using generator_total [of OptUndefined ascii_toUpperCase example_world "[]"] by auto
qed

theorem null_options_throw:
  "fst (generateLogoConfig ascii_toUpperCase example_world (JStr (js ''Acme'')) OptNull)
     = Inl TypeError \<and>
   isl (fst (generateLogoConfig ascii_toUpperCase example_world (JStr (js ''Acme'')) OptNull))"
  by (simp add: generateLogoConfig_def)

section \<open>Properties of the request handler\<close>

lemma generate_batch_ok:
  assumes "f \<noteq> OptNull"
  shows "\<exists>cs w1. generate_batch toUpperCase k w n f = (Inr cs, w1) \<and> length cs = k \<and>
    (\<forall>c\<in>set cs. name c = n \<and> initials c = derive_initials toUpperCase n)"
proof (induction k arbitrary: w)
  case 0
  then show ?case by simp
next
  case (Suc k)
  obtain c where c: "fst (generateLogoConfig toUpperCase w (JStr n) f) = Inr c"
    using generator_returns [OF assms] by blast
  define w1 where "w1 = snd (generateLogoConfig toUpperCase w (JStr n) f)"
  have first: "generateLogoConfig toUpperCase w (JStr n) f = (Inr c, w1)"
    using c by (simp add: w1_def prod_eq_iff)
  obtain cs w2 where rest: "generate_batch toUpperCase k w1 n f = (Inr cs, w2)" "length cs = k"
    "\<forall>c\<in>set cs. name c = n \<and> initials c = derive_initials toUpperCase n"
    using Suc.IH [of w1] by blast
  have "generate_batch toUpperCase (Suc k) w n f = (Inr (c # cs), w2)"
    by (simp add: first rest(1))
  moreover have "name c = n" "initials c = derive_initials toUpperCase n"
    using c by (rule generator_fields)+
  ultimately show ?case
    using rest(2,3) by simp
qed

lemma generate_batch_null: "0 < k \<Longrightarrow> fst (generate_batch toUpperCase k w n OptNull) = Inl TypeError"
  by (cases k) (simp_all add: generateLogoConfig_def)

lemma trim_Nil: "trim [] = []"
  by (simp add: trim_def)

lemma name_missing_iff:
  "name_missing v \<longleftrightarrow> (\<forall>s. v = JStr s \<longrightarrow> trim s = [])"
  by (cases v) (auto simp: name_missing_def trim_Nil)

subsection \<open>The text of a number\<close>









lemma batch_size_bounds: "1 \<le> batch_size v" "batch_size v \<le> 12"
  by (simp_all add: batch_size_def Let_def)


lemma batch_size_missing: "batch_size JUndefined = 9"
  by (simp add: batch_size_def parseInt10_def parseInt_string_def js_def unit_of_def is_ws_def
      is_digit_def digit_value_def)



lemma handler_rejects:
  assumes "req_method req = ''POST''"
    and "req_body req = BodyEmpty \<or> (\<exists>b. req_body req = BodyObject b \<and> name_missing (body_name b))"
  shows "handler toUpperCase w req = (respond 400 (ErrorJson ''A logo name is required.''), w)"
  using assms by (auto simp: handler_def name_missing_def)

lemma handler_generates:
  assumes "req_method req = ''POST''" and "req_body req = BodyObject b"
    and "body_name b = JStr s" and "trim s \<noteq> []" and "body_filters b \<noteq> OptNull"
  shows "\<exists>logos w1. handler toUpperCase w req = (respond 200 (LogosJson logos (take 50 (trim s))), w1) \<and>
    length logos = batch_size (body_count b) \<and>
    (\<forall>c\<in>set logos. name c = take 50 (trim s))"
proof -
  define filters where
    "filters = (case body_filters b of OptUndefined \<Rightarrow> OptObject no_options | given \<Rightarrow> given)"
  have f: "filters \<noteq> OptNull"
    using assms(5) by (cases "body_filters b") (simp_all add: filters_def)
  obtain logos w1 where made:
    "generate_batch toUpperCase (batch_size (body_count b)) w (take 50 (trim s)) filters = (Inr logos, w1)"
    "length logos = batch_size (body_count b)"
    "\<forall>c\<in>set logos. name c = take 50 (trim s) \<and> initials c = derive_initials toUpperCase (take 50 (trim s))"
    using generate_batch_ok [OF f] by blast
  have s: "s \<noteq> []" using assms(4) by (auto simp: trim_Nil)
  have "handler toUpperCase w req = (respond 200 (LogosJson logos (take 50 (trim s))), w1)"
    using assms(1-4) s made(1)
    by (simp add: handler_def name_missing_def Let_def filters_def)
  then show ?thesis
    using made(2,3) by blast
qed


text \<open>
  The filters \<^verbatim>\<open>null\<close> make the generator throw, and the handler answers 500.
\<close>

lemma handler_internal_error:
  assumes "req_method req = ''POST''" and "req_body req = BodyObject b"
    and "body_name b = JStr s" and "trim s \<noteq> []" and "body_filters b = OptNull"
  shows "status (fst (handler toUpperCase w req)) = 500"
proof -
  have s: "s \<noteq> []" using assms(4) by (auto simp: trim_Nil)
  have "0 < batch_size (body_count b)"
    using batch_size_bounds(1) [of "body_count b"] by simp
  then have "fst (generate_batch toUpperCase (batch_size (body_count b)) w (take 50 (trim s)) OptNull)
      = Inl TypeError"
    by (rule generate_batch_null)
  then show ?thesis
    using assms s
    by (simp add: handler_def name_missing_def Let_def split_beta respond_def)
qed

subsection \<open>C9\<close>

text \<open>
  C9, as amended. A request to \<^verbatim>\<open>/api/generate\<close> whose method is neither
  \<^verbatim>\<open>POST\<close> nor \<^verbatim>\<open>OPTIONS\<close> is answered with status 405 and the error body
  \<^verbatim>\<open>Method not allowed\<close>, and nothing is generated. An \<^verbatim>\<open>OPTIONS\<close> request is
  answered with status 204 and no body.
\<close>

theorem method_not_allowed:
  "(req_method req \<noteq> ''POST'' \<and> req_method req \<noteq> ''OPTIONS'' \<longrightarrow>
      status (fst (handler toUpperCase w req)) = 405 \<and>
      payload (fst (handler toUpperCase w req)) = ErrorJson ''Method not allowed'' \<and>
      has_error_message (fst (handler toUpperCase w req)) \<and> snd (handler toUpperCase w req) = w) \<and>
   (req_method req = ''OPTIONS'' \<longrightarrow>
      status (fst (handler toUpperCase w req)) = 204 \<and> payload (fst (handler toUpperCase w req)) = NoContent)"
  by (simp add: handler_def respond_def has_error_message_def)

theorem method_not_allowed_witness:
  "status (answer \<lparr>req_method = ''GET'', req_body = BodyEmpty\<rparr>) = 405 \<and>
   payload (answer \<lparr>req_method = ''GET'', req_body = BodyEmpty\<rparr>)
     = ErrorJson ''Method not allowed''"
  using method_not_allowed
    [where req = "\<lparr>req_method = ''GET'', req_body = BodyEmpty\<rparr>" and w = example_world
       and toUpperCase = ascii_toUpperCase]
  by (simp add: answer_def)

theorem options_answered_204:
  "status (answer \<lparr>req_method = ''OPTIONS'', req_body = BodyEmpty\<rparr>) = 204 \<and>
   payload (answer \<lparr>req_method = ''OPTIONS'', req_body = BodyEmpty\<rparr>) = NoContent"
  by (simp add: answer_def handler_def respond_def)

subsection \<open>C6\<close>

lemma handler_unreadable:
  assumes "req_method req = ''POST''" and "req_body req = BodyThrows"
  shows "handler toUpperCase w req = (respond 500 (ErrorJson ''Internal server error''), w)"
  using assms by (simp add: handler_def)

text \<open>
  C6, as amended. A \<^verbatim>\<open>POST\<close> request whose body can be read and has no name (no body at
  all, or no \<^verbatim>\<open>name\<close> property), or a name that is not a string, or a string that is
  empty or white space only, is answered with status 400 and the message
  \<^verbatim>\<open>A logo name is required.\<close>; the response has no \<^verbatim>\<open>logos\<close>, and no configuration
  was generated on the way. A \<^verbatim>\<open>POST\<close> request whose body cannot be read, a text that
  \<^verbatim>\<open>JSON.parse\<close> rejects or parses to \<^verbatim>\<open>null\<close>, has no name either: it is answered
  with status 500 and the message \<^verbatim>\<open>Internal server error\<close>, again with no
  \<^verbatim>\<open>logos\<close> and nothing generated.
\<close>

theorem missing_name_rejected:
  assumes "req_method req = ''POST''"
  shows
    "(req_body req = BodyEmpty \<or>
      (\<exists>b. req_body req = BodyObject b \<and> (\<forall>s. body_name b = JStr s \<longrightarrow> trim s = [])) \<longrightarrow>
        status (fst (handler toUpperCase w req)) = 400 \<and>
        has_error_message (fst (handler toUpperCase w req)) \<and>
        payload (fst (handler toUpperCase w req)) = ErrorJson ''A logo name is required.'' \<and>
        \<not> has_logos (fst (handler toUpperCase w req)) \<and>
        logos_of (fst (handler toUpperCase w req)) = [] \<and>
        snd (handler toUpperCase w req) = w) \<and>
     (req_body req = BodyThrows \<longrightarrow>
        status (fst (handler toUpperCase w req)) = 500 \<and>
        has_error_message (fst (handler toUpperCase w req)) \<and>
        payload (fst (handler toUpperCase w req)) = ErrorJson ''Internal server error'' \<and>
        \<not> has_logos (fst (handler toUpperCase w req)) \<and>
        logos_of (fst (handler toUpperCase w req)) = [] \<and>
        snd (handler toUpperCase w req) = w)"
proof (intro conjI impI)
  assume "req_body req = BodyEmpty \<or>
      (\<exists>b. req_body req = BodyObject b \<and> (\<forall>s. body_name b = JStr s \<longrightarrow> trim s = []))"
  then have "handler toUpperCase w req = (respond 400 (ErrorJson ''A logo name is required.''), w)"
    using assms by (intro handler_rejects) (simp_all add: name_missing_iff)
  then show "status (fst (handler toUpperCase w req)) = 400"
    and "has_error_message (fst (handler toUpperCase w req))"
    and "payload (fst (handler toUpperCase w req)) = ErrorJson ''A logo name is required.''"
    and "\<not> has_logos (fst (handler toUpperCase w req))"
    and "logos_of (fst (handler toUpperCase w req)) = []"
    and "snd (handler toUpperCase w req) = w"
    by (simp_all add: respond_def has_error_message_def has_logos_def logos_of_def)
next
  assume "req_body req = BodyThrows"
  then have "handler toUpperCase w req = (respond 500 (ErrorJson ''Internal server error''), w)"
    using assms by (intro handler_unreadable)
  then show "status (fst (handler toUpperCase w req)) = 500"
    and "has_error_message (fst (handler toUpperCase w req))"
    and "payload (fst (handler toUpperCase w req)) = ErrorJson ''Internal server error''"
    and "\<not> has_logos (fst (handler toUpperCase w req))"
    and "logos_of (fst (handler toUpperCase w req)) = []"
    and "snd (handler toUpperCase w req) = w"
    by (simp_all add: respond_def has_error_message_def has_logos_def logos_of_def)
qed

theorem missing_name_rejected_witness:
  "status (answer (post (named (js ''   '')))) = 400 \<and>
   \<not> has_logos (answer (post (named (js ''   '')))) \<and>
   status (answer (post (named [0xA0]))) = 400 \<and>
   status (answer \<lparr>req_method = ''POST'', req_body = BodyEmpty\<rparr>) = 400 \<and>
   status (answer (post \<lparr>body_name = JNum (decimal 7), body_count = JUndefined,
     body_filters = OptUndefined\<rparr>)) = 400"
proof -
  have blank: "trim (js ''   '') = []" "trim [0xA0] = []"
    by (simp_all add: trim_def is_ws_def js_def unit_of_def)
  have a: "status (fst (handler ascii_toUpperCase example_world (post (named (js ''   ''))))) = 400 \<and>
      \<not> has_logos (fst (handler ascii_toUpperCase example_world (post (named (js ''   '')))))"
    using missing_name_rejected
      [where req = "post (named (js ''   ''))" and w = example_world
         and toUpperCase = ascii_toUpperCase]
    by (simp add: post_def named_def blank)
  have b: "status (fst (handler ascii_toUpperCase example_world (post (named [0xA0])))) = 400"
    using missing_name_rejected
      [where req = "post (named [0xA0])" and w = example_world
         and toUpperCase = ascii_toUpperCase]
    by (simp add: post_def named_def blank)
  have c: "status (fst (handler ascii_toUpperCase example_world
      \<lparr>req_method = ''POST'', req_body = BodyEmpty\<rparr>)) = 400"
    using missing_name_rejected
      [where req = "\<lparr>req_method = ''POST'', req_body = BodyEmpty\<rparr>" and w = example_world
         and toUpperCase = ascii_toUpperCase]
    by simp
  have d: "status (fst (handler ascii_toUpperCase example_world
      (post \<lparr>body_name = JNum (decimal 7), body_count = JUndefined, body_filters = OptUndefined\<rparr>))) = 400"
    using missing_name_rejected
      [where req = "post \<lparr>body_name = JNum (decimal 7), body_count = JUndefined,
           body_filters = OptUndefined\<rparr>"
         and w = example_world and toUpperCase = ascii_toUpperCase]
    by (simp add: post_def)
  show ?thesis
    using a b c d by (simp add: answer_def)
qed

theorem unreadable_body_answered_500:
  "status (answer \<lparr>req_method = ''POST'', req_body = BodyThrows\<rparr>) = 500 \<and>
   payload (answer \<lparr>req_method = ''POST'', req_body = BodyThrows\<rparr>)
     = ErrorJson ''Internal server error''"
  by (simp add: answer_def handler_def respond_def)

subsection \<open>C5\<close>




subsection \<open>C4\<close>

text \<open>
  C4, as amended. The generator validates nothing and rejects no string: given any string as
  name, also an empty one, one of white space only or an overlong one, and any options but
  \<^verbatim>\<open>null\<close>, it returns a configuration that carries that string unchanged as its
  \<open>name\<close>. The input is validated in the request handler: a \<^verbatim>\<open>POST\<close> request whose
  name is empty or white space only is answered with status 400 before the generator is
  called, and a name of more than 50 code units is not rejected but cut to its first 50 code
  units after trimming (the filters being anything but \<^verbatim>\<open>null\<close>).
\<close>

theorem validation_at_the_boundary:
  "(opts_v \<noteq> OptNull \<longrightarrow>
      (\<exists>c. fst (generateLogoConfig toUpperCase w (JStr s) opts_v) = Inr c \<and> name c = s)) \<and>
   (trim s = [] \<longrightarrow>
      handler toUpperCase w (post \<lparr>body_name = JStr s, body_count = k, body_filters = f\<rparr>)
        = (respond 400 (ErrorJson ''A logo name is required.''), w)) \<and>
   (trim s \<noteq> [] \<and> f \<noteq> OptNull \<longrightarrow>
      status (fst (handler toUpperCase w
          (post \<lparr>body_name = JStr s, body_count = k, body_filters = f\<rparr>))) = 200 \<and>
      (\<forall>c\<in>set (logos_of (fst (handler toUpperCase w
            (post \<lparr>body_name = JStr s, body_count = k, body_filters = f\<rparr>)))).
         name c = take 50 (trim s) \<and> length (name c) \<le> 50))"
proof (intro conjI impI)
  assume "opts_v \<noteq> OptNull"
  then obtain c where c: "fst (generateLogoConfig toUpperCase w (JStr s) opts_v) = Inr c"
    using generator_returns by blast
  then have "name c = s" by (rule generator_fields(1))
  then show "\<exists>c. fst (generateLogoConfig toUpperCase w (JStr s) opts_v) = Inr c \<and> name c = s"
    using c by blast
next
  assume "trim s = []"
  then show "handler toUpperCase w (post \<lparr>body_name = JStr s, body_count = k, body_filters = f\<rparr>)
        = (respond 400 (ErrorJson ''A logo name is required.''), w)"
    by (intro handler_rejects) (simp_all add: post_def name_missing_iff)
next
  assume a: "trim s \<noteq> [] \<and> f \<noteq> OptNull"
  let ?req = "post \<lparr>body_name = JStr s, body_count = k, body_filters = f\<rparr>"
  obtain logos w1 where
    h: "handler toUpperCase w ?req = (respond 200 (LogosJson logos (take 50 (trim s))), w1)"
    and names: "\<forall>c\<in>set logos. name c = take 50 (trim s)"
    using handler_generates [where req = ?req
        and b = "\<lparr>body_name = JStr s, body_count = k, body_filters = f\<rparr>" and s = s and w = w
        and toUpperCase = toUpperCase] a
    by (auto simp: post_def)
  show "status (fst (handler toUpperCase w ?req)) = 200"
    by (simp add: h respond_def)
  show "\<forall>c\<in>set (logos_of (fst (handler toUpperCase w ?req))).
         name c = take 50 (trim s) \<and> length (name c) \<le> 50"
    using names by (simp add: h logos_of_def respond_def)
qed

theorem validation_at_the_boundary_witness:
  "(\<exists>c. fst (generateLogoConfig ascii_toUpperCase example_world (JStr long_name) OptUndefined)
       = Inr c \<and> name c = long_name) \<and>
   status (answer (post (named long_name))) = 200 \<and>
   map name (logos_of (answer (post (named long_name))))
     = replicate 9 (replicate 50 (unit_of CHR ''a'')) \<and>
   status (answer (post (named (js ''   '')))) = 400 \<and>
   status (answer (post (named [0xA0]))) = 400"
proof -
  have blank: "trim (js ''   '') = []" "trim [0xA0] = []"
    by (simp_all add: trim_def is_ws_def js_def unit_of_def)
  have "\<not> is_ws (unit_of CHR ''a'')"
    by (simp add: is_ws_def unit_of_def)
  then have "dropWhile is_ws long_name = long_name"
    "dropWhile is_ws (rev long_name) = rev long_name"
    by (simp_all add: long_name_def)
  then have long: "trim long_name = long_name"
    by (simp add: trim_def)
  have cut: "take 50 long_name = replicate 50 (unit_of CHR ''a'')"
    by (simp add: long_name_def)
  note g = validation_at_the_boundary
    [where opts_v = OptUndefined and w = example_world and s = long_name and k = JUndefined
       and f = OptUndefined and toUpperCase = ascii_toUpperCase]
  note b = validation_at_the_boundary
    [where opts_v = OptUndefined and w = example_world and s = "js ''   ''" and k = JUndefined
       and f = OptUndefined and toUpperCase = ascii_toUpperCase]
  note nb = validation_at_the_boundary
    [where opts_v = OptUndefined and w = example_world and s = "[0xA0]" and k = JUndefined
       and f = OptUndefined and toUpperCase = ascii_toUpperCase]
  have 1: "\<exists>c. fst (generateLogoConfig ascii_toUpperCase example_world (JStr long_name) OptUndefined)
       = Inr c \<and> name c = long_name"
    using g by simp
  have nonblank: "trim long_name \<noteq> []"
    unfolding long by (simp add: long_name_def)
  have 2: "status (answer (post (named long_name))) = 200"
    and names: "\<forall>c\<in>set (logos_of (answer (post (named long_name)))).
       name c = replicate 50 (unit_of CHR ''a'')"
    using g nonblank by (simp_all add: answer_def named_def long cut)
  have "length (logos_of (answer (post (named long_name)))) = 9"
  proof -
    obtain logos w1 where
      "handler ascii_toUpperCase example_world (post (named long_name))
         = (respond 200 (LogosJson logos (take 50 (trim long_name))), w1)"
      "length logos = batch_size (body_count (named long_name))"
      using handler_generates [where req = "post (named long_name)" and b = "named long_name"
          and s = long_name and w = example_world and toUpperCase = ascii_toUpperCase] nonblank
      by (auto simp: post_def named_def)
    then show ?thesis
      by (simp add: answer_def logos_of_def respond_def named_def batch_size_missing)
  qed
  moreover have "map name (logos_of (answer (post (named long_name))))
      = replicate (length (logos_of (answer (post (named long_name)))))
          (replicate 50 (unit_of CHR ''a''))"
    using names by (simp add: map_replicate_const [symmetric] cong: map_cong)
  ultimately have 3: "map name (logos_of (answer (post (named long_name))))
     = replicate 9 (replicate 50 (unit_of CHR ''a''))"
    by simp
  have 4: "status (answer (post (named (js ''   '')))) = 400"
    using b blank by (simp add: answer_def named_def respond_def)
  have 5: "status (answer (post (named [0xA0]))) = 400"
    using nb blank by (simp add: answer_def named_def respond_def)
  show ?thesis
    using 1 2 3 4 5 by blast
qed

theorem generator_accepts_any_name:
  "\<not> isl (fst (generateLogoConfig ascii_toUpperCase example_world (JStr []) OptUndefined)) \<and>
   \<not> isl (fst (generateLogoConfig ascii_toUpperCase example_world (JStr (js ''   ''))
       OptUndefined)) \<and>
   \<not> isl (fst (generateLogoConfig ascii_toUpperCase example_world (JStr long_name)
       OptUndefined)) \<and>
   length (name (projr (fst (generateLogoConfig ascii_toUpperCase example_world (JStr long_name)
       OptUndefined)))) = 51"
proof -
  have r: "\<exists>c. fst (generateLogoConfig ascii_toUpperCase example_world (JStr s) OptUndefined)
      = Inr c \<and> name c = s"
    for s
  proof -
    obtain c where
      c: "fst (generateLogoConfig ascii_toUpperCase example_world (JStr s) OptUndefined) = Inr c"
      using generator_returns [of OptUndefined] by blast
    then have "name c = s" by (rule generator_fields(1))
    then show ?thesis using c by blast
  qed
  have "length long_name = 51"
    by (simp add: long_name_def)
  then show ?thesis
    using r [of "[]"] r [of "js ''   ''"] r [of long_name] by auto
qed

section \<open>Properties of the SVG exporter\<close>

lemma occurrences_self: "1 \<le> occurrences p (p @ z)"
proof (cases "p @ z")
  case Nil
  then show ?thesis by simp
next
  case (Cons c cs)
  have "take (length p) (p @ z) = p" by simp
  then show ?thesis unfolding Cons by simp
qed

lemma occurrences_after: "occurrences p b \<le> occurrences p (a @ b)"
proof (induction a)
  case Nil
  then show ?case by simp
next
  case (Cons c a)
  then show ?case by (simp add: le_SucI trans_le_add2)
qed

lemma occurrences_inside: "1 \<le> occurrences p (a @ p @ z)"
  using occurrences_self [of p z] occurrences_after [of p "p @ z" a] by linarith

lemma occurrences_piece:
  assumes "p \<in> set pieces"
  shows "1 \<le> occurrences p (concat pieces)"
proof -
  obtain xs ys where "pieces = xs @ p # ys"
    using assms by (auto dest: split_list)
  then have "concat pieces = concat xs @ p @ concat ys"
    by simp
  then show ?thesis
    using occurrences_inside [of p "concat xs" "concat ys"] by simp
qed

lemma interpolated_piece:
  assumes "piece \<in> set svg_template"
  shows "1 \<le> occurrences (interpolate toUpperCase num c piece) (svgContent toUpperCase num c)"
  unfolding svgContent_def using assms by (intro occurrences_piece) (simp add: svg_pieces_def)

lemma svg_contains:
  "1 \<le> occurrences (toUpperCase (name c)) (svgContent toUpperCase num c)"
  "1 \<le> occurrences (js ''BRAND'') (svgContent toUpperCase num c)"
  "1 \<le> occurrences (js ''  <circle cx=\"300\" cy=\"300\" r=\"200\" fill=\"url(#fill)\" stroke=\"'')
      (svgContent toUpperCase num c)"
proof -
  have "UpperName \<in> set svg_template" "Fixed ''BRAND'' \<in> set svg_template"
    "Fixed ''  <circle cx=\"300\" cy=\"300\" r=\"200\" fill=\"url(#fill)\" stroke=\"''
       \<in> set svg_template"
    by (simp_all add: svg_template_def)
  from this [THEN interpolated_piece, of toUpperCase num c]
  show "1 \<le> occurrences (toUpperCase (name c)) (svgContent toUpperCase num c)"
    "1 \<le> occurrences (js ''BRAND'') (svgContent toUpperCase num c)"
    "1 \<le> occurrences (js ''  <circle cx=\"300\" cy=\"300\" r=\"200\" fill=\"url(#fill)\" stroke=\"'')
      (svgContent toUpperCase num c)"
    by (simp_all add: interpolate_def)
qed

lemma svg_template_facts:
  "count_list svg_template UpperName = 1" "fixed_occurrences ''BRAND'' = 1"
  "fixed_occurrences ''<circle'' = 2"
  by (simp_all add: fixed_occurrences_def svg_template_def nl_def)

lemma svg_frame:
  assumes "same_export_fields c d"
  shows "svgContent toUpperCase num c = svgContent toUpperCase num d"
proof -
  have "interpolate toUpperCase num c piece = interpolate toUpperCase num d piece" for piece
    using assms by (cases piece) (simp_all add: interpolate_def same_export_fields_def)
  then have "interpolate toUpperCase num c = interpolate toUpperCase num d"
    by (rule ext)
  then show ?thesis
    by (simp add: svgContent_def svg_pieces_def)
qed


lemma occurrences_first:
  assumes "p \<noteq> []"
  shows "1 + occurrences p r \<le> occurrences p (p @ r)"
proof -
  obtain c cs where p: "p = c # cs"
    using assms by (cases p) auto
  have "take (length p) (p @ r) = p" by simp
  then have "occurrences p (p @ r) = 1 + occurrences p (cs @ r)"
    unfolding p by simp
  then show ?thesis
    using occurrences_after [of p r cs] by simp
qed

lemma count_pieces: "p \<noteq> [] \<Longrightarrow> count_list pieces p \<le> occurrences p (concat pieces)"
proof (induction pieces)
  case Nil
  then show ?case by simp
next
  case (Cons x xs)
  show ?case
  proof (cases "x = p")
    case True
    then show ?thesis
      using Cons occurrences_first [of p "concat xs"] by simp
  next
    case False
    then show ?thesis
      using Cons occurrences_after [of p "concat xs" x] by simp
  qed
qed

lemma generator_letterSpacing:
  assumes "fst (generateLogoConfig toUpperCase w (JStr n) opts_v) = Inr c"
  shows "letterSpacing c = rnd w 4 * 8 - 2"
  using assms by (cases opts_v; simp add: generateLogoConfig_def Let_def split_beta; force)

lemma ocean_palette:
  "fst (pickPalette (advance 10 example_world) ''ocean'')
     = \<lparr>primary = Some ''#4CC9F0'', secondary = Some ''#4361EE'', accent = Some ''#7400B8'',
        bg = Some ''#03045E'', paletteName = ''ocean''\<rparr>"
proof -
  have key: "palette_key (advance 10 example_world) ''ocean'' = ''ocean''"
    by (simp add: palette_key_def js_in_COLOR_PALETTES keys_COLOR_PALETTES)
  have "map_of COLOR_PALETTES (palette_key (advance 10 example_world) ''ocean'')
      = Some [mk_variant ''#00B4D8'' ''#0077B6'' ''#90E0EF'' ''#03045E'',
         mk_variant ''#48CAE4'' ''#023E8A'' ''#ADE8F4'' ''#03045E'',
         mk_variant ''#06D6A0'' ''#0496FF'' ''#FFBC42'' ''#0A1628'',
         mk_variant ''#4CC9F0'' ''#4361EE'' ''#7400B8'' ''#03045E'']"
    unfolding key by (simp add: COLOR_PALETTES_def)
  then show ?thesis
    by (simp add: palette_variant key rnd_advance rnd_example random_index_def
        spread_palette_def mk_variant_def)
qed

lemma brand_config_fields:
  "name brand_config = js ''brand''" "letterSpacing brand_config = 26 / 5"
  "palette brand_config
     = \<lparr>primary = Some ''#4CC9F0'', secondary = Some ''#4361EE'', accent = Some ''#7400B8'',
        bg = Some ''#03045E'', paletteName = ''ocean''\<rparr>"
proof -
  note g = generated_Inr [of "js ''brand''" example_options, folded brand_config_def]
  show "name brand_config = js ''brand''"
    using g by (rule generator_fields(1))
  show "letterSpacing brand_config = 26 / 5"
    using generator_letterSpacing [OF g] by (simp add: rnd_example)
  show "palette brand_config
     = \<lparr>primary = Some ''#4CC9F0'', secondary = Some ''#4361EE'', accent = Some ''#7400B8'',
        bg = Some ''#03045E'', paletteName = ''ocean''\<rparr>"
    using generator_fields(3) [OF g] ocean_palette
    by (simp add: given_options_def example_options_def no_options_def or_random_def)
qed

subsection \<open>C8\<close>

text \<open>
  C8, as amended. The template of the exporter interpolates the uppercased brand name at
  exactly one place and has the tagline \<^verbatim>\<open>BRAND\<close> exactly once in its fixed text, so that
  for every configuration the exported document contains each of them at least once; it can
  contain them more often, since the name, a colour or the text of a number can bring further
  occurrences. The fixed text draws two circles and the main figure is the circle of radius
  200 whatever the \<open>shape\<close> of the configuration is: the document depends on nothing of the
  configuration but the name, the letter spacing and the primary, secondary, accent and
  background colour of the palette.
\<close>

theorem svg_export:
  "count_list svg_template UpperName = 1 \<and> fixed_occurrences ''BRAND'' = 1 \<and>
   fixed_occurrences ''<circle'' = 2 \<and>
   1 \<le> occurrences (toUpperCase (name c)) (svgContent toUpperCase num c) \<and>
   1 \<le> occurrences (js ''BRAND'') (svgContent toUpperCase num c) \<and>
   1 \<le> occurrences (js ''  <circle cx=\"300\" cy=\"300\" r=\"200\" fill=\"url(#fill)\" stroke=\"'')
      (svgContent toUpperCase num c) \<and>
   svgContent toUpperCase num (c\<lparr>shape := sh\<rparr>) = svgContent toUpperCase num c \<and>
   (same_export_fields c d \<longrightarrow> svgContent toUpperCase num c = svgContent toUpperCase num d)"
proof -
  have "svgContent toUpperCase num (c\<lparr>shape := sh\<rparr>) = svgContent toUpperCase num c"
    by (rule svg_frame) (simp add: same_export_fields_def)
  then show ?thesis
    using svg_contains svg_frame svg_template_facts by blast
qed

theorem svg_export_witness:
  "1 \<le> occurrences (ascii_toUpperCase (js ''brand'')) (svgContent ascii_toUpperCase example_num brand_config) \<and>
   svgContent ascii_toUpperCase example_num (brand_config\<lparr>shape := ''hexagon''\<rparr>)
     = svgContent ascii_toUpperCase example_num brand_config \<and>
   svgContent ascii_toUpperCase example_num (brand_config\<lparr>effect := ''glow'', rotation := 0\<rparr>)
     = svgContent ascii_toUpperCase example_num brand_config"
proof -
  have same: "same_export_fields brand_config (brand_config\<lparr>effect := ''glow'', rotation := 0\<rparr>)"
    by (simp add: same_export_fields_def)
  note r = svg_export [where c = brand_config and num = example_num and sh = "''hexagon''"
      and d = "brand_config\<lparr>effect := ''glow'', rotation := 0\<rparr>"
      and toUpperCase = ascii_toUpperCase]
  have a: "1 \<le> occurrences (ascii_toUpperCase (js ''brand'')) (svgContent ascii_toUpperCase example_num brand_config)"
    using r by (simp only: brand_config_fields(1))
  have b: "svgContent ascii_toUpperCase example_num (brand_config\<lparr>shape := ''hexagon''\<rparr>)
     = svgContent ascii_toUpperCase example_num brand_config"
    using r by blast
  have c: "svgContent ascii_toUpperCase example_num (brand_config\<lparr>effect := ''glow'', rotation := 0\<rparr>)
     = svgContent ascii_toUpperCase example_num brand_config"
    using r same by simp
  show ?thesis
    using a b c by blast
qed

theorem brand_occurs_twice:
  "ascii_toUpperCase (name brand_config) = js ''BRAND'' \<and>
   2 \<le> occurrences (ascii_toUpperCase (name brand_config))
         (svgContent ascii_toUpperCase example_num brand_config) \<and>
   2 \<le> occurrences (js ''BRAND'') (svgContent ascii_toUpperCase example_num brand_config)"
proof -
  have up: "ascii_toUpperCase (name brand_config) = js ''BRAND''"
    by (simp add: brand_config_fields(1) ascii_toUpperCase_def upper_unit_def js_def unit_of_def)
  have two: "count_list (svg_pieces ascii_toUpperCase example_num brand_config) (js ''BRAND'') = 2"
    by (simp add: svg_pieces_def svg_template_def interpolate_def up brand_config_fields(2,3)
        template_text_def nl_def example_num_def js_inj)
  have "js ''BRAND'' \<noteq> []"
    by (simp add: js_def)
  then have "2 \<le> occurrences (js ''BRAND'') (svgContent ascii_toUpperCase example_num brand_config)"
    using count_pieces [of "js ''BRAND''" "svg_pieces ascii_toUpperCase example_num brand_config"]
    by (simp add: svgContent_def two)
  then show ?thesis
    using up by simp
qed

section \<open>Properties of the 2D renderer\<close>














subsection \<open>C7\<close>




end
